theory Spec2Isabelle
  imports Complex_Main
begin

section \<open>Data model\<close>

text \<open>
  The script \<^verbatim>\<open>trans_sup_ha.py\<close> has one function, \<^verbatim>\<open>st_trans_sup_ha\<close>, which works on
  feature collections through the geoprocessing library. A field definition carries the
  nine attributes the script reads from a field object and passes on when it adds the
  field to another collection.
\<close>

type_synonym path = string
type_synonym spatial_ref = string

datatype geometry = Polygon "(int \<times> int) list"

datatype val = Null | Num rat | IntV int | Text string

record field =
  f_name :: string
  f_type :: string
  f_precision :: int
  f_scale :: int
  f_length :: int
  f_aliasName :: string
  f_isNullable :: bool
  f_required :: bool
  f_domain :: string

record feature =
  shape :: geometry
  attrs :: "(string \<times> val) list"

record featureclass =
  fc_fields :: "field list"
  fc_rows :: "feature list"
  spatialReference :: spatial_ref

text \<open>
  The two exception classes the script distinguishes in its handlers: the library's
  \<^verbatim>\<open>ExecuteError\<close> (with the tool messages) and any other \<^verbatim>\<open>Exception\<close>.
\<close>

datatype error = ExecuteError string | PyException string

text \<open>One constructor for each \<^verbatim>\<open>print\<close> of the script, with the values it interpolates.\<close>

datatype message =
    MsgNoExiste path
  | MsgIniciando string
  | MsgCampoDetectado string
  | MsgFormatoCorrecto
  | MsgSuperficieCalculada
  | MsgFormatoIncorrecto string int
  | MsgSeRecreara
  | MsgCreandoTemporal path
  | MsgCopiandoDatos
  | MsgCalculando string
  | MsgReemplazando
  | MsgCompletado
  | MsgErrorDeArcPy
  | MsgArcPyMessages string
  | MsgErrorInesperado string

text \<open>
  The state the script reads and writes: the storage (collections by location), the three
  settings of the geoprocessing environment it touches, and the two output streams.
\<close>

record world =
  store :: "path \<Rightarrow> featureclass option"
  overwriteOutput :: bool
  outputCoordinateSystem :: "spatial_ref option"
  scratchFolder :: path
  stdout :: "message list"
  stderr :: "message list"

text \<open>Every call of a collaborator service, by name and the arguments that identify it.\<close>

datatype call =
    CallDescribe path
  | CallListFields path
  | CallCalculateGeometryAttributes path string
  | CallCreateUniqueName string path
  | CallCreateFeatureclass path
  | CallAddField path string
  | CallSearchCursor path
  | CallInsertCursor path
  | CallInsertRow path
  | CallDeleteField path string
  | CallDelete path
  | CallCopyFeatures path path

text \<open>
  What the script does not decide is a parameter: which service calls fail and how, the
  area engine, the generator of temporary locations, and the numeric format the storage
  gives to a double field that is created without an explicit precision and scale.
\<close>

record services =
  fault :: "call \<Rightarrow> error option"
  area_hectares :: "spatial_ref \<Rightarrow> geometry \<Rightarrow> rat"
  unique_name :: "string \<Rightarrow> path \<Rightarrow> (path \<Rightarrow> bool) \<Rightarrow> path"
  double_precision :: int
  double_scale :: int

section \<open>Actions: state passing with exceptions\<close>

type_synonym 'a action = "world \<Rightarrow> (error + 'a) \<times> world"

definition return :: "'a \<Rightarrow> 'a action" where
  "return x w = (Inr x, w)"

definition raise :: "error \<Rightarrow> 'a action" where
  "raise e w = (Inl e, w)"

definition and_then :: "'a action \<Rightarrow> ('a \<Rightarrow> 'b action) \<Rightarrow> 'b action" where
  "and_then m f w = (case m w of (Inl e, w') \<Rightarrow> (Inl e, w') | (Inr x, w') \<Rightarrow> f x w')"

definition tool :: "services \<Rightarrow> call \<Rightarrow> 'a action \<Rightarrow> 'a action" where
  "tool sv c m w = (case fault sv c of Some e \<Rightarrow> (Inl e, w) | None \<Rightarrow> m w)"

definition print_out :: "message \<Rightarrow> unit action" where
  "print_out m w = (Inr (), w\<lparr>stdout := stdout w @ [m]\<rparr>)"

definition print_err :: "message \<Rightarrow> world \<Rightarrow> world" where
  "print_err m w = w\<lparr>stderr := stderr w @ [m]\<rparr>"

definition put_store :: "path \<Rightarrow> featureclass option \<Rightarrow> unit action" where
  "put_store p x w = (Inr (), w\<lparr>store := (store w)(p := x)\<rparr>)"

section \<open>Strings\<close>

text \<open>
  \<^verbatim>\<open>str.lower()\<close> on the ASCII letters; bytes outside \<open>A\<close>..\<open>Z\<close> are left as they are.
\<close>

definition lower_char :: "char \<Rightarrow> char" where
  "lower_char c =
     (let n = (of_char c :: nat) in if 65 \<le> n \<and> n \<le> 90 then char_of (n + 32) else c)"

definition lower :: "string \<Rightarrow> string" where
  "lower s = map lower_char s"

text \<open>\<^verbatim>\<open>os.path.basename\<close>: what follows the last separator.\<close>

definition basename :: "path \<Rightarrow> string" where
  "basename p = rev (takeWhile (\<lambda>c. c \<noteq> CHR ''/'' \<and> c \<noteq> CHR 0x5C) (rev p))"

section \<open>Collaborator services\<close>

text \<open>
  Modelled from the spec: the geoprocessing library is not part of the repository. The
  spec lists the services consumed (existence check, schema introspection, create empty
  collection, add field, delete field, streaming read and insert, geometry-derived
  attribute computation, delete collection, copy collection, unique temporary location),
  says that field names are unique within a schema and looked up case-insensitively, that
  a new collection carries the collection-managed identity and geometry fields and an
  implicitly added identity-numbering field, and that in the absent case the call succeeds
  and the schema gains the field although the script never adds it, so the attribute
  computation creates a missing field. The services are modelled as follows.
  \<^item> A service call fails when the fault parameter says so, leaving the state as it was.
    The existence check answers from the storage and does not fail.
  \<^item> A new collection has the fields \<open>FID\<close>, \<open>Shape\<close> and \<open>Id\<close> and no rows; creating
    or copying onto an existing location fails unless overwriting is enabled.
  \<^item> Adding a field whose name is in the schema already leaves the schema as it is; a new
    field goes to the end and is null in every row. The type keywords of the add-field
    service are stored under the names the introspection reports.
  \<^item> The area computation writes, in every row, the area of the row's geometry under the
    field found for the name; a field that is not found is first added as a double field
    with the format of the storage. The coordinate system is the one set in the
    environment, or the collection's own when none is set.
  \<^item> Deleting a field that is not in the schema fails, as does deleting a collection that
    does not exist, reading fields of one, or opening a cursor on a name that is not a field.
  \<^item> An inserted row has the geometry and the values of the cursor's fields and is null
    elsewhere. Collections hold polygons only, as the script assumes.
\<close>

definition managed :: "field \<Rightarrow> bool" where
  "managed f = (f_type f \<in> set [''OID'', ''Geometry''])"

definition find_field :: "string \<Rightarrow> field list \<Rightarrow> field option" where
  "find_field n fs = find (\<lambda>f. lower (f_name f) = lower n) fs"

definition implicit_fields :: "field list" where
  "implicit_fields =
    [\<lparr>f_name = ''FID'', f_type = ''OID'', f_precision = 0, f_scale = 0, f_length = 4,
      f_aliasName = ''FID'', f_isNullable = False, f_required = True, f_domain = ''''\<rparr>,
     \<lparr>f_name = ''Shape'', f_type = ''Geometry'', f_precision = 0, f_scale = 0, f_length = 0,
      f_aliasName = ''Shape'', f_isNullable = True, f_required = True, f_domain = ''''\<rparr>,
     \<lparr>f_name = ''Id'', f_type = ''Integer'', f_precision = 6, f_scale = 0, f_length = 4,
      f_aliasName = ''Id'', f_isNullable = True, f_required = False, f_domain = ''''\<rparr>]"

definition field_type_keyword :: "string \<Rightarrow> string" where
  "field_type_keyword t =
     (if t = ''DOUBLE'' then ''Double''
      else if t = ''TEXT'' then ''String''
      else if t = ''LONG'' then ''Integer''
      else if t = ''SHORT'' then ''SmallInteger''
      else if t = ''FLOAT'' then ''Single''
      else if t = ''DATE'' then ''Date''
      else t)"

definition fc_add_field :: "field \<Rightarrow> featureclass \<Rightarrow> featureclass" where
  "fc_add_field f fc =
     (case find_field (f_name f) (fc_fields fc) of
        Some _ \<Rightarrow> fc
      | None \<Rightarrow> fc\<lparr>fc_fields := fc_fields fc @ [f],
                   fc_rows := map (\<lambda>r. r\<lparr>attrs := attrs r @ [(f_name f, Null)]\<rparr>) (fc_rows fc)\<rparr>)"

fun set_attr :: "string \<Rightarrow> val \<Rightarrow> (string \<times> val) list \<Rightarrow> (string \<times> val) list" where
  "set_attr n v [] = [(n, v)]"
| "set_attr n v ((k, x) # kvs) =
     (if k = n then (k, v) # kvs else (k, x) # set_attr n v kvs)"

definition fc_write_area :: "services \<Rightarrow> spatial_ref \<Rightarrow> string \<Rightarrow> featureclass \<Rightarrow> featureclass" where
  "fc_write_area sv cs n fc =
     fc\<lparr>fc_rows := map (\<lambda>r. r\<lparr>attrs := set_attr n (Num (area_hectares sv cs (shape r))) (attrs r)\<rparr>)
                   (fc_rows fc)\<rparr>"

definition new_double_field :: "services \<Rightarrow> string \<Rightarrow> field" where
  "new_double_field sv n =
     \<lparr>f_name = n, f_type = ''Double'', f_precision = double_precision sv,
      f_scale = double_scale sv, f_length = 0, f_aliasName = '''', f_isNullable = True,
      f_required = False, f_domain = ''''\<rparr>"

definition fc_calculate_area :: "services \<Rightarrow> spatial_ref \<Rightarrow> string \<Rightarrow> featureclass \<Rightarrow> featureclass" where
  "fc_calculate_area sv cs n fc =
     (case find_field n (fc_fields fc) of
        Some f \<Rightarrow> fc_write_area sv cs (f_name f) fc
      | None \<Rightarrow> fc_write_area sv cs n (fc_add_field (new_double_field sv n) fc))"

definition fc_delete_field :: "string \<Rightarrow> featureclass \<Rightarrow> featureclass" where
  "fc_delete_field n fc =
     fc\<lparr>fc_fields := filter (\<lambda>f. lower (f_name f) \<noteq> lower n) (fc_fields fc),
        fc_rows := map (\<lambda>r. r\<lparr>attrs := filter (\<lambda>kv. lower (fst kv) \<noteq> lower n) (attrs r)\<rparr>)
                    (fc_rows fc)\<rparr>"

definition read_row :: "string list \<Rightarrow> feature \<Rightarrow> geometry \<times> val list" where
  "read_row names r =
     (shape r, map (\<lambda>n. case map_of (attrs r) n of Some v \<Rightarrow> v | None \<Rightarrow> Null) names)"

definition fc_insert_row :: "string list \<Rightarrow> geometry \<times> val list \<Rightarrow> featureclass \<Rightarrow> featureclass" where
  "fc_insert_row names row fc =
     fc\<lparr>fc_rows := fc_rows fc @
        [\<lparr>shape = fst row,
          attrs = map (\<lambda>f. (f_name f,
                    case map_of (zip names (snd row)) (f_name f) of Some v \<Rightarrow> v | None \<Rightarrow> Null))
                  (filter (\<lambda>f. \<not> managed f) (fc_fields fc))\<rparr>]\<rparr>"

definition Exists :: "world \<Rightarrow> path \<Rightarrow> bool" where
  "Exists w p = (store w p \<noteq> None)"

definition dataset :: "path \<Rightarrow> error \<Rightarrow> featureclass action" where
  "dataset p e w = (case store w p of None \<Rightarrow> (Inl e, w) | Some fc \<Rightarrow> (Inr fc, w))"

definition Describe :: "services \<Rightarrow> path \<Rightarrow> featureclass action" where
  "Describe sv p = tool sv (CallDescribe p) (dataset p (PyException ''OSError''))"

definition ListFields :: "services \<Rightarrow> path \<Rightarrow> field list action" where
  "ListFields sv p =
     tool sv (CallListFields p)
       (and_then (dataset p (PyException ''OSError'')) (\<lambda>fc. return (fc_fields fc)))"

definition CalculateGeometryAttributes :: "services \<Rightarrow> path \<Rightarrow> string \<Rightarrow> unit action" where
  "CalculateGeometryAttributes sv p n =
     tool sv (CallCalculateGeometryAttributes p n)
       (and_then (dataset p (ExecuteError ''ERROR 000732'')) (\<lambda>fc w.
          put_store p
            (Some (fc_calculate_area sv
               (case outputCoordinateSystem w of Some cs \<Rightarrow> cs | None \<Rightarrow> spatialReference fc)
               n fc)) w))"

definition CreateUniqueName :: "services \<Rightarrow> string \<Rightarrow> path \<Rightarrow> path action" where
  "CreateUniqueName sv base ws =
     tool sv (CallCreateUniqueName base ws) (\<lambda>w. return (unique_name sv base ws (Exists w)) w)"

definition CreateFeatureclass :: "services \<Rightarrow> path \<Rightarrow> spatial_ref \<Rightarrow> unit action" where
  "CreateFeatureclass sv p sr =
     tool sv (CallCreateFeatureclass p) (\<lambda>w.
       if Exists w p \<and> \<not> overwriteOutput w then raise (ExecuteError ''ERROR 000725'') w
       else put_store p
              (Some \<lparr>fc_fields = implicit_fields, fc_rows = [], spatialReference = sr\<rparr>) w)"

definition AddField :: "services \<Rightarrow> path \<Rightarrow> field \<Rightarrow> unit action" where
  "AddField sv p f =
     tool sv (CallAddField p (f_name f))
       (and_then (dataset p (ExecuteError ''ERROR 000732'')) (\<lambda>fc.
          put_store p (Some (fc_add_field (f\<lparr>f_type := field_type_keyword (f_type f)\<rparr>) fc))))"

definition SearchCursor :: "services \<Rightarrow> path \<Rightarrow> string list \<Rightarrow> (geometry \<times> val list) list action" where
  "SearchCursor sv p names =
     tool sv (CallSearchCursor p)
       (and_then (dataset p (PyException ''RuntimeError'')) (\<lambda>fc.
          if \<forall>n \<in> set names. find_field n (fc_fields fc) \<noteq> None
          then return (map (read_row names) (fc_rows fc))
          else raise (PyException ''RuntimeError'')))"

definition InsertCursor :: "services \<Rightarrow> path \<Rightarrow> string list \<Rightarrow> unit action" where
  "InsertCursor sv p names =
     tool sv (CallInsertCursor p)
       (and_then (dataset p (PyException ''RuntimeError'')) (\<lambda>fc.
          if \<forall>n \<in> set names. find_field n (fc_fields fc) \<noteq> None
          then return ()
          else raise (PyException ''RuntimeError'')))"

definition insertRow :: "services \<Rightarrow> path \<Rightarrow> string list \<Rightarrow> geometry \<times> val list \<Rightarrow> unit action" where
  "insertRow sv p names row =
     tool sv (CallInsertRow p)
       (and_then (dataset p (PyException ''RuntimeError'')) (\<lambda>fc.
          put_store p (Some (fc_insert_row names row fc))))"

definition DeleteField :: "services \<Rightarrow> path \<Rightarrow> string \<Rightarrow> unit action" where
  "DeleteField sv p n =
     tool sv (CallDeleteField p n)
       (and_then (dataset p (ExecuteError ''ERROR 000732'')) (\<lambda>fc.
          if find_field n (fc_fields fc) = None then raise (ExecuteError ''ERROR 000728'')
          else put_store p (Some (fc_delete_field n fc))))"

definition Delete :: "services \<Rightarrow> path \<Rightarrow> unit action" where
  "Delete sv p =
     tool sv (CallDelete p)
       (and_then (dataset p (ExecuteError ''ERROR 000732'')) (\<lambda>_. put_store p None))"

definition CopyFeatures :: "services \<Rightarrow> path \<Rightarrow> path \<Rightarrow> unit action" where
  "CopyFeatures sv src dst =
     tool sv (CallCopyFeatures src dst)
       (and_then (dataset src (ExecuteError ''ERROR 000732'')) (\<lambda>fc w.
          if Exists w dst \<and> \<not> overwriteOutput w then raise (ExecuteError ''ERROR 000725'') w
          else put_store dst (Some fc) w))"

section \<open>The script\<close>

definition set_overwriteOutput :: "bool \<Rightarrow> unit action" where
  "set_overwriteOutput b w = (Inr (), w\<lparr>overwriteOutput := b\<rparr>)"

definition set_outputCoordinateSystem :: "spatial_ref \<Rightarrow> unit action" where
  "set_outputCoordinateSystem sr w = (Inr (), w\<lparr>outputCoordinateSystem := Some sr\<rparr>)"

text \<open>
  The field the script asks for at the target's position (line 82): the five positional
  arguments name, \<^verbatim>\<open>"DOUBLE"\<close>, precision and scale, the others at their defaults.
\<close>

definition target_field :: "string \<Rightarrow> int \<Rightarrow> int \<Rightarrow> field" where
  "target_field campo_superficie precision escala =
     \<lparr>f_name = campo_superficie, f_type = ''DOUBLE'', f_precision = precision,
      f_scale = escala, f_length = 0, f_aliasName = '''', f_isNullable = True,
      f_required = False, f_domain = ''''\<rparr>"

text \<open>
  Lines 76 to 82, the walk over the original fields. There is no step after the loop: the
  append for an absent target (lines 85 and 86) is commented out in the source.
\<close>

fun add_fields :: "services \<Rightarrow> path \<Rightarrow> string \<Rightarrow> int \<Rightarrow> int \<Rightarrow> field list \<Rightarrow> unit action" where
  "add_fields sv temp_shapefile campo_superficie precision escala [] = return ()"
| "add_fields sv temp_shapefile campo_superficie precision escala (f # fs) =
     and_then
       (if f_type f \<notin> set [''OID'', ''Geometry''] \<and> lower (f_name f) \<noteq> lower campo_superficie
        then AddField sv temp_shapefile f
        else if lower (f_name f) = lower campo_superficie
        then AddField sv temp_shapefile (target_field campo_superficie precision escala)
        else return ())
       (\<lambda>_. add_fields sv temp_shapefile campo_superficie precision escala fs)"

text \<open>Lines 98 and 99, one insert for each row the search cursor yields.\<close>

fun insert_rows :: "services \<Rightarrow> path \<Rightarrow> string list \<Rightarrow> (geometry \<times> val list) list \<Rightarrow> unit action" where
  "insert_rows sv temp_shapefile names [] = return ()"
| "insert_rows sv temp_shapefile names (row # s_cursor) =
     and_then (insertRow sv temp_shapefile names row)
       (\<lambda>_. insert_rows sv temp_shapefile names s_cursor)"

text \<open>Lines 91 and 93, the two list comprehensions.\<close>

definition temp_fields_of :: "field list \<Rightarrow> string list" where
  "temp_fields_of fs = map f_name (filter (\<lambda>f. f_type f \<notin> set [''OID'', ''Geometry'']) fs)"

definition original_fields_to_copy_of :: "field list \<Rightarrow> string list \<Rightarrow> string \<Rightarrow> string list" where
  "original_fields_to_copy_of original_fields temp_fields campo_superficie =
     map f_name
       (filter (\<lambda>f. f_name f \<in> set temp_fields \<and> lower (f_name f) \<noteq> lower campo_superficie)
          original_fields)"

text \<open>
  The recreation of the layer, in the four numbered parts of the source. Part 2, lines 64
  to 82: the temporary collection and its fields. \<^verbatim>\<open>os.path.dirname\<close> and
  \<^verbatim>\<open>os.path.basename\<close> of the temporary location are joined again by the service, so
  the collection is created at that location.
\<close>

definition create_temp ::
    "services \<Rightarrow> string \<Rightarrow> int \<Rightarrow> int \<Rightarrow> spatial_ref \<Rightarrow> field list \<Rightarrow> path action" where
  "create_temp sv campo_superficie precision escala spatial_ref original_fields =
     and_then (\<lambda>w. CreateUniqueName sv ''temp_output.shp'' (scratchFolder w) w) (\<lambda>temp_shapefile.
     and_then (print_out (MsgCreandoTemporal temp_shapefile)) (\<lambda>_.
     and_then (CreateFeatureclass sv temp_shapefile spatial_ref) (\<lambda>_.
     and_then (add_fields sv temp_shapefile campo_superficie precision escala original_fields) (\<lambda>_.
     return temp_shapefile))))"

text \<open>Part 3, lines 89 to 99: the copy of the rows through the two cursors.\<close>

definition copy_attributes ::
    "services \<Rightarrow> path \<Rightarrow> path \<Rightarrow> string \<Rightarrow> field list \<Rightarrow> unit action" where
  "copy_attributes sv shapefile_path temp_shapefile campo_superficie original_fields =
     and_then (print_out MsgCopiandoDatos) (\<lambda>_.
     and_then (ListFields sv temp_shapefile) (\<lambda>tfs.
     and_then (SearchCursor sv shapefile_path
                 (original_fields_to_copy_of original_fields (temp_fields_of tfs) campo_superficie))
       (\<lambda>s_cursor.
     and_then (InsertCursor sv temp_shapefile
                 (original_fields_to_copy_of original_fields (temp_fields_of tfs) campo_superficie))
       (\<lambda>_.
     insert_rows sv temp_shapefile
       (original_fields_to_copy_of original_fields (temp_fields_of tfs) campo_superficie)
       s_cursor))))"

text \<open>Part 4, lines 102 to 108: the area in the temporary collection.\<close>

definition calculate_geometry :: "services \<Rightarrow> path \<Rightarrow> string \<Rightarrow> unit action" where
  "calculate_geometry sv temp_shapefile campo_superficie =
     and_then (print_out (MsgCalculando campo_superficie)) (\<lambda>_.
     CalculateGeometryAttributes sv temp_shapefile campo_superficie)"

text \<open>Part 5, lines 111 to 119: the replacement of the original.\<close>

definition replace_original :: "services \<Rightarrow> path \<Rightarrow> path \<Rightarrow> bool action" where
  "replace_original sv shapefile_path temp_shapefile =
     and_then (print_out MsgReemplazando) (\<lambda>_.
     and_then (DeleteField sv temp_shapefile ''Id'') (\<lambda>_.
     and_then (Delete sv shapefile_path) (\<lambda>_.
     and_then (CopyFeatures sv temp_shapefile shapefile_path) (\<lambda>_.
     and_then (Delete sv temp_shapefile) (\<lambda>_.
     and_then (print_out MsgCompletado) (\<lambda>_.
     return True))))))"

definition recreate_layer ::
    "services \<Rightarrow> path \<Rightarrow> string \<Rightarrow> int \<Rightarrow> int \<Rightarrow> spatial_ref \<Rightarrow> field list \<Rightarrow> bool action" where
  "recreate_layer sv shapefile_path campo_superficie precision escala spatial_ref original_fields =
     and_then (create_temp sv campo_superficie precision escala spatial_ref original_fields)
       (\<lambda>temp_shapefile.
     and_then (copy_attributes sv shapefile_path temp_shapefile campo_superficie original_fields)
       (\<lambda>_.
     and_then (calculate_geometry sv temp_shapefile campo_superficie) (\<lambda>_.
     replace_original sv shapefile_path temp_shapefile)))"

text \<open>Lines 29 to 119, the body of the \<^verbatim>\<open>try\<close>.\<close>

definition try_body :: "services \<Rightarrow> path \<Rightarrow> string \<Rightarrow> int \<Rightarrow> int \<Rightarrow> bool action" where
  "try_body sv shapefile_path campo_superficie precision escala =
     and_then (set_overwriteOutput True) (\<lambda>_.
     and_then (Describe sv shapefile_path) (\<lambda>d.
     and_then (set_outputCoordinateSystem (spatialReference d)) (\<lambda>_.
     and_then (ListFields sv shapefile_path) (\<lambda>original_fields.
       case find (\<lambda>f. lower (f_name f) = lower campo_superficie) original_fields of
         Some field_obj \<Rightarrow>
           and_then (print_out (MsgCampoDetectado campo_superficie)) (\<lambda>_.
             if f_type field_obj = ''Double'' \<and> f_precision field_obj = precision
                \<and> f_scale field_obj = escala
             then
               and_then (print_out MsgFormatoCorrecto) (\<lambda>_.
               and_then (CalculateGeometryAttributes sv shapefile_path campo_superficie) (\<lambda>_.
               and_then (print_out MsgSuperficieCalculada) (\<lambda>_.
               return True)))
             else
               and_then (print_out (MsgFormatoIncorrecto (f_type field_obj) (f_precision field_obj)))
                 (\<lambda>_.
               and_then (print_out MsgSeRecreara) (\<lambda>_.
               recreate_layer sv shapefile_path campo_superficie precision escala
                 (spatialReference d) original_fields)))
       | None \<Rightarrow>
           recreate_layer sv shapefile_path campo_superficie precision escala
             (spatialReference d) original_fields))))"

text \<open>
  The whole function: the existence check and the first progress message are outside the
  \<^verbatim>\<open>try\<close>; the two handlers turn an exception of the body into the result
  \<^verbatim>\<open>False\<close> after writing to the error stream. The result is \<open>Inr b\<close> when the
  function returns \<open>b\<close> and \<open>Inl e\<close> when it raises \<open>e\<close>.
\<close>

definition st_trans_sup_ha ::
    "services \<Rightarrow> path \<Rightarrow> string \<Rightarrow> int \<Rightarrow> int \<Rightarrow> bool action" where
  "st_trans_sup_ha sv shapefile_path campo_superficie precision escala w =
     (if \<not> Exists w shapefile_path
      then (Inr False, print_err (MsgNoExiste shapefile_path) w)
      else
        case try_body sv shapefile_path campo_superficie precision escala
               (snd (print_out (MsgIniciando (basename shapefile_path)) w)) of
          (Inr b, w') \<Rightarrow> (Inr b, w')
        | (Inl (ExecuteError msgs), w') \<Rightarrow>
            (Inr False, print_err (MsgArcPyMessages msgs) (print_err MsgErrorDeArcPy w'))
        | (Inl (PyException e), w') \<Rightarrow>
            (Inr False, print_err (MsgErrorInesperado e) w'))"

section \<open>What the parts compute\<close>

text \<open>
  The state changes of the loops and of the whole recreation as functions on collections,
  against which the actions above are proved.
\<close>

definition temp_location :: "services \<Rightarrow> world \<Rightarrow> path" where
  "temp_location sv w = unique_name sv ''temp_output.shp'' (scratchFolder w) (Exists w)"

definition requested :: "field \<Rightarrow> field" where
  "requested f = f\<lparr>f_type := field_type_keyword (f_type f)\<rparr>"

fun fc_add_fields :: "string \<Rightarrow> int \<Rightarrow> int \<Rightarrow> field list \<Rightarrow> featureclass \<Rightarrow> featureclass" where
  "fc_add_fields campo_superficie precision escala [] fc = fc"
| "fc_add_fields campo_superficie precision escala (f # fs) fc =
     fc_add_fields campo_superficie precision escala fs
       (if f_type f \<notin> set [''OID'', ''Geometry''] \<and> lower (f_name f) \<noteq> lower campo_superficie
        then fc_add_field (requested f) fc
        else if lower (f_name f) = lower campo_superficie
        then fc_add_field (requested (target_field campo_superficie precision escala)) fc
        else fc)"

fun fc_insert_rows :: "string list \<Rightarrow> (geometry \<times> val list) list \<Rightarrow> featureclass \<Rightarrow> featureclass" where
  "fc_insert_rows names [] fc = fc"
| "fc_insert_rows names (row # s_cursor) fc =
     fc_insert_rows names s_cursor (fc_insert_row names row fc)"

definition temp_with_fields :: "string \<Rightarrow> int \<Rightarrow> int \<Rightarrow> featureclass \<Rightarrow> featureclass" where
  "temp_with_fields campo_superficie precision escala fc =
     fc_add_fields campo_superficie precision escala (fc_fields fc)
       \<lparr>fc_fields = implicit_fields, fc_rows = [], spatialReference = spatialReference fc\<rparr>"

definition temp_with_rows :: "string \<Rightarrow> int \<Rightarrow> int \<Rightarrow> featureclass \<Rightarrow> featureclass" where
  "temp_with_rows campo_superficie precision escala fc =
     (let tfc = temp_with_fields campo_superficie precision escala fc;
          names = original_fields_to_copy_of (fc_fields fc) (temp_fields_of (fc_fields tfc))
                    campo_superficie
      in fc_insert_rows names (map (read_row names) (fc_rows fc)) tfc)"

definition temp_with_area :: "services \<Rightarrow> string \<Rightarrow> int \<Rightarrow> int \<Rightarrow> featureclass \<Rightarrow> featureclass" where
  "temp_with_area sv campo_superficie precision escala fc =
     fc_calculate_area sv (spatialReference fc) campo_superficie
       (temp_with_rows campo_superficie precision escala fc)"

definition rebuilt :: "services \<Rightarrow> string \<Rightarrow> int \<Rightarrow> int \<Rightarrow> featureclass \<Rightarrow> featureclass" where
  "rebuilt sv campo_superficie precision escala fc =
     fc_delete_field ''Id'' (temp_with_area sv campo_superficie precision escala fc)"

text \<open>
  The fields of the original that come back in the rebuilt collection, and the definition
  each comes back with.
\<close>

definition reserved_names :: "string list" where
  "reserved_names = map (\<lambda>f. lower (f_name f)) implicit_fields"



text \<open>
  The fast path is taken when the target is found with the type, precision and scale asked
  for (lines 38 and 44 to 46).
\<close>

definition well_formed :: "string \<Rightarrow> int \<Rightarrow> int \<Rightarrow> field list \<Rightarrow> bool" where
  "well_formed campo_superficie precision escala fs =
     (case find_field campo_superficie fs of
        None \<Rightarrow> False
      | Some field_obj \<Rightarrow> f_type field_obj = ''Double'' \<and> f_precision field_obj = precision
                          \<and> f_scale field_obj = escala)"

text \<open>An observation of the state that an action leaves as it was, whatever its outcome.\<close>

definition preserves :: "(world \<Rightarrow> 'x) \<Rightarrow> 'a action \<Rightarrow> bool" where
  "preserves g m = (\<forall>w. g (snd (m w)) = g w)"

definition ignores :: "(world \<Rightarrow> 'x) \<Rightarrow> path \<Rightarrow> bool" where
  "ignores g q =
     ((\<forall>w x. g (w\<lparr>store := (store w)(q := x)\<rparr>) = g w) \<and> (\<forall>w s. g (w\<lparr>stdout := s\<rparr>) = g w))"

section \<open>Example inputs\<close>

text \<open>
  Concrete services and collections on which the theorems below are instantiated. The
  example area engine is the shoelace formula on a closed ring of vertices in metres.
\<close>

fun shoelace :: "(int \<times> int) list \<Rightarrow> int" where
  "shoelace ((x1, y1) # (x2, y2) # ps) = x1 * y2 - x2 * y1 + shoelace ((x2, y2) # ps)"
| "shoelace _ = 0"

definition example_area :: "spatial_ref \<Rightarrow> geometry \<Rightarrow> rat" where
  "example_area sr g = (case g of Polygon ps \<Rightarrow> of_int \<bar>shoelace ps\<bar> / 20000)"

definition example_services :: services where
  "example_services =
     \<lparr>fault = (\<lambda>_. None), area_hectares = example_area,
      unique_name = (\<lambda>base ws ex. ws @ ''/'' @ base),
      double_precision = 18, double_scale = 11\<rparr>"

definition copy_back_fails :: services where
  "copy_back_fails =
     example_services\<lparr>fault := (\<lambda>c.
        if c = CallCopyFeatures ''C:/scratch/temp_output.shp'' ''C:/datos/predio.shp''
        then Some (ExecuteError ''ERROR 000210'') else None)\<rparr>"

definition attribute_field :: "string \<Rightarrow> string \<Rightarrow> int \<Rightarrow> int \<Rightarrow> int \<Rightarrow> field" where
  "attribute_field n t p s l =
     \<lparr>f_name = n, f_type = t, f_precision = p, f_scale = s, f_length = l,
      f_aliasName = n, f_isNullable = True, f_required = False, f_domain = ''''\<rparr>"

definition one_hectare :: geometry where
  "one_hectare = Polygon [(0, 0), (100, 0), (100, 100), (0, 100), (0, 0)]"

definition predio_text :: featureclass where
  "predio_text =
     \<lparr>fc_fields = [attribute_field ''FID'' ''OID'' 0 0 4,
                   attribute_field ''Shape'' ''Geometry'' 0 0 0,
                   attribute_field ''Id'' ''Integer'' 6 0 4,
                   attribute_field ''SUP_HA'' ''String'' 0 0 20,
                   attribute_field ''Nombre'' ''String'' 0 0 50],
      fc_rows = [\<lparr>shape = one_hectare,
                   attrs = [(''Id'', IntV 7), (''SUP_HA'', Text ''uno''), (''Nombre'', Text ''Lote A'')]\<rparr>],
      spatialReference = ''EPSG:32719''\<rparr>"

definition predio_ok :: featureclass where
  "predio_ok =
     \<lparr>fc_fields = [attribute_field ''FID'' ''OID'' 0 0 4,
                   attribute_field ''Shape'' ''Geometry'' 0 0 0,
                   attribute_field ''Sup_ha'' ''Double'' 8 2 0,
                   attribute_field ''Nombre'' ''String'' 0 0 50],
      fc_rows = [\<lparr>shape = one_hectare,
                   attrs = [(''Sup_ha'', Num 0), (''Nombre'', Text ''Lote A'')]\<rparr>],
      spatialReference = ''EPSG:32719''\<rparr>"

definition predio_sin_campo :: featureclass where
  "predio_sin_campo =
     \<lparr>fc_fields = [attribute_field ''FID'' ''OID'' 0 0 4,
                   attribute_field ''Shape'' ''Geometry'' 0 0 0,
                   attribute_field ''Nombre'' ''String'' 0 0 50],
      fc_rows = [\<lparr>shape = one_hectare, attrs = [(''Nombre'', Text ''Lote A'')]\<rparr>],
      spatialReference = ''EPSG:32719''\<rparr>"

definition example_world :: "featureclass \<Rightarrow> world" where
  "example_world fc =
     \<lparr>store = (\<lambda>_. None)(''C:/datos/predio.shp'' := Some fc), overwriteOutput = False,
      outputCoordinateSystem = None, scratchFolder = ''C:/scratch'', stdout = [], stderr = []\<rparr>"

text \<open>The schema and the attribute rows of the collection at a location, for reading results.\<close>

definition schema_of :: "world \<Rightarrow> path \<Rightarrow> (string \<times> string \<times> int \<times> int) list option" where
  "schema_of w p =
     map_option (\<lambda>fc. map (\<lambda>f. (f_name f, f_type f, f_precision f, f_scale f)) (fc_fields fc))
       (store w p)"

definition rows_of :: "world \<Rightarrow> path \<Rightarrow> (string \<times> val) list list option" where
  "rows_of w p = map_option (\<lambda>fc. map attrs (fc_rows fc)) (store w p)"

section \<open>Successful service calls\<close>

lemma and_then_Inr:
  "and_then m f w = (Inr x, w') \<longleftrightarrow> (\<exists>y w1. m w = (Inr y, w1) \<and> f y w1 = (Inr x, w'))"
  by (auto simp: and_then_def split: prod.splits sum.splits)

lemma and_then_cases:
  assumes "and_then m f w = (r, w')"
  obtains (fail) e where "m w = (Inl e, w')" "r = Inl e"
        | (step) y w1 where "m w = (Inr y, w1)" "f y w1 = (r, w')"
  using assms by (auto simp: and_then_def split: prod.splits sum.splits)

lemma tool_Inr:
  "tool sv c m w = (Inr x, w') \<longleftrightarrow> fault sv c = None \<and> m w = (Inr x, w')"
  by (simp add: tool_def split: option.splits)

lemma dataset_Inr:
  "dataset p e w = (Inr fc, w') \<longleftrightarrow> store w p = Some fc \<and> w' = w"
  by (auto simp: dataset_def split: option.splits)

lemma print_out_Inr:
  "print_out m w = (r, w') \<longleftrightarrow> r = Inr () \<and> w' = w\<lparr>stdout := stdout w @ [m]\<rparr>"
  by (auto simp: print_out_def)

lemma put_store_eq:
  "put_store p x w = (r, w') \<longleftrightarrow> r = Inr () \<and> w' = w\<lparr>store := (store w)(p := x)\<rparr>"
  by (auto simp: put_store_def)

lemma return_eq: "return x w = (r, w') \<longleftrightarrow> r = Inr x \<and> w' = w"
  by (auto simp: return_def)

lemma raise_eq: "raise e w = (r, w') \<longleftrightarrow> r = Inl e \<and> w' = w"
  by (auto simp: raise_def)

lemmas ok_simps = and_then_Inr tool_Inr dataset_Inr print_out_Inr put_store_eq return_eq raise_eq

lemma Describe_Inr:
  "Describe sv p w = (Inr d, w') \<longleftrightarrow>
     fault sv (CallDescribe p) = None \<and> store w p = Some d \<and> w' = w"
  by (auto simp: Describe_def ok_simps)

lemma ListFields_Inr:
  "ListFields sv p w = (Inr fs, w') \<longleftrightarrow>
     fault sv (CallListFields p) = None \<and> (\<exists>fc. store w p = Some fc \<and> fs = fc_fields fc) \<and> w' = w"
  by (auto simp: ListFields_def ok_simps)

lemma CalculateGeometryAttributes_Inr:
  "CalculateGeometryAttributes sv p n w = (Inr u, w') \<longleftrightarrow>
     fault sv (CallCalculateGeometryAttributes p n) = None \<and>
     (\<exists>fc. store w p = Some fc \<and>
        w' = w\<lparr>store := (store w)(p := Some (fc_calculate_area sv
               (case outputCoordinateSystem w of Some cs \<Rightarrow> cs | None \<Rightarrow> spatialReference fc)
               n fc))\<rparr>)"
  by (auto simp: CalculateGeometryAttributes_def ok_simps)

lemma CreateUniqueName_Inr:
  "CreateUniqueName sv base ws w = (Inr t, w') \<longleftrightarrow>
     fault sv (CallCreateUniqueName base ws) = None \<and> t = unique_name sv base ws (Exists w) \<and> w' = w"
  by (auto simp: CreateUniqueName_def ok_simps)

lemma CreateFeatureclass_Inr:
  "CreateFeatureclass sv p sr w = (Inr u, w') \<longleftrightarrow>
     fault sv (CallCreateFeatureclass p) = None \<and> (Exists w p \<longrightarrow> overwriteOutput w) \<and>
     w' = w\<lparr>store := (store w)(p := Some \<lparr>fc_fields = implicit_fields, fc_rows = [], spatialReference = sr\<rparr>)\<rparr>"
  by (auto simp: CreateFeatureclass_def ok_simps)

lemma AddField_Inr:
  "AddField sv p f w = (Inr u, w') \<longleftrightarrow>
     fault sv (CallAddField p (f_name f)) = None \<and>
     (\<exists>fc. store w p = Some fc \<and> w' = w\<lparr>store := (store w)(p := Some (fc_add_field (requested f) fc))\<rparr>)"
  by (auto simp: AddField_def requested_def ok_simps)

lemma SearchCursor_Inr:
  "SearchCursor sv p names w = (Inr rs, w') \<longleftrightarrow>
     fault sv (CallSearchCursor p) = None \<and>
     (\<exists>fc. store w p = Some fc \<and> (\<forall>n \<in> set names. find_field n (fc_fields fc) \<noteq> None) \<and>
           rs = map (read_row names) (fc_rows fc)) \<and> w' = w"
  by (auto simp: SearchCursor_def ok_simps split: if_splits)

lemma InsertCursor_Inr:
  "InsertCursor sv p names w = (Inr u, w') \<longleftrightarrow>
     fault sv (CallInsertCursor p) = None \<and>
     (\<exists>fc. store w p = Some fc \<and> (\<forall>n \<in> set names. find_field n (fc_fields fc) \<noteq> None)) \<and> w' = w"
  by (auto simp: InsertCursor_def ok_simps split: if_splits)

lemma insertRow_Inr:
  "insertRow sv p names row w = (Inr u, w') \<longleftrightarrow>
     fault sv (CallInsertRow p) = None \<and>
     (\<exists>fc. store w p = Some fc \<and> w' = w\<lparr>store := (store w)(p := Some (fc_insert_row names row fc))\<rparr>)"
  by (auto simp: insertRow_def ok_simps)

lemma DeleteField_Inr:
  "DeleteField sv p n w = (Inr u, w') \<longleftrightarrow>
     fault sv (CallDeleteField p n) = None \<and>
     (\<exists>fc. store w p = Some fc \<and> find_field n (fc_fields fc) \<noteq> None \<and>
           w' = w\<lparr>store := (store w)(p := Some (fc_delete_field n fc))\<rparr>)"
  by (auto simp: DeleteField_def ok_simps split: if_splits)

lemma Delete_Inr:
  "Delete sv p w = (Inr u, w') \<longleftrightarrow>
     fault sv (CallDelete p) = None \<and> store w p \<noteq> None \<and> w' = w\<lparr>store := (store w)(p := None)\<rparr>"
  by (auto simp: Delete_def ok_simps)

lemma CopyFeatures_Inr:
  "CopyFeatures sv src dst w = (Inr u, w') \<longleftrightarrow>
     fault sv (CallCopyFeatures src dst) = None \<and> (Exists w dst \<longrightarrow> overwriteOutput w) \<and>
     (\<exists>fc. store w src = Some fc \<and> w' = w\<lparr>store := (store w)(dst := Some fc)\<rparr>)"
  by (auto simp: CopyFeatures_def ok_simps split: if_splits)


lemma preserves_and_then:
  assumes "preserves g m" and "\<And>x. preserves g (f x)"
  shows "preserves g (and_then m f)"
  unfolding preserves_def
proof
  fix w
  show "g (snd (and_then m f w)) = g w"
  proof (cases "m w")
    case (Pair r w1)
    have g1: "g w1 = g w" using assms(1) Pair by (auto simp: preserves_def dest: spec[where x=w])
    show ?thesis
    proof (cases r)
      case (Inl e)
      then show ?thesis using Pair g1 by (simp add: and_then_def)
    next
      case (Inr y)
      have "g (snd (f y w1)) = g w1" using assms(2)[of y] by (simp add: preserves_def)
      then show ?thesis using Pair Inr g1 by (simp add: and_then_def)
    qed
  qed
qed

lemma preserves_tool: "preserves g m \<Longrightarrow> preserves g (tool sv c m)"
  by (simp add: preserves_def tool_def split: option.splits)

lemma preserves_return: "preserves g (return x)"
  by (simp add: preserves_def return_def)

lemma preserves_raise: "preserves g (raise e)"
  by (simp add: preserves_def raise_def)

lemma preserves_dataset: "preserves g (dataset p e)"
  by (simp add: preserves_def dataset_def split: option.splits)

lemma preserves_print_out: "ignores g q \<Longrightarrow> preserves g (print_out m)"
  by (simp add: preserves_def print_out_def ignores_def)

lemma preserves_put_store: "ignores g q \<Longrightarrow> preserves g (put_store q x)"
  by (simp add: preserves_def put_store_def ignores_def)

lemma preserves_pointwise: "(\<And>w. preserves g (\<lambda>w'. m w w')) \<Longrightarrow> preserves g (\<lambda>w. m w w)"
  by (simp add: preserves_def)

lemma preserves_if: "preserves g a \<Longrightarrow> preserves g b \<Longrightarrow> preserves g (if c then a else b)"
  by simp

lemmas preserves_intros =
  preserves_and_then preserves_tool preserves_return preserves_raise preserves_dataset
  preserves_print_out preserves_put_store preserves_if

lemma preserves_Describe: "preserves g (Describe sv p)"
  unfolding Describe_def by (intro preserves_intros)

lemma preserves_ListFields: "preserves g (ListFields sv p)"
  unfolding ListFields_def by (intro preserves_intros)

lemma preserves_CalculateGeometryAttributes:
  "ignores g q \<Longrightarrow> preserves g (CalculateGeometryAttributes sv q n)"
  unfolding CalculateGeometryAttributes_def
  by (intro preserves_tool preserves_and_then preserves_dataset)
     (simp add: preserves_def put_store_def ignores_def)

lemma preserves_CreateFeatureclass: "ignores g q \<Longrightarrow> preserves g (CreateFeatureclass sv q sr)"
  unfolding CreateFeatureclass_def
  by (intro preserves_tool) (simp add: preserves_def put_store_def ignores_def raise_def)

lemma preserves_AddField: "ignores g q \<Longrightarrow> preserves g (AddField sv q f)"
  unfolding AddField_def by (intro preserves_intros) 

lemma preserves_SearchCursor: "preserves g (SearchCursor sv p names)"
  unfolding SearchCursor_def by (intro preserves_intros)

lemma preserves_InsertCursor: "preserves g (InsertCursor sv p names)"
  unfolding InsertCursor_def by (intro preserves_intros)

lemma preserves_insertRow: "ignores g q \<Longrightarrow> preserves g (insertRow sv q names row)"
  unfolding insertRow_def by (intro preserves_intros)




lemma preserves_add_fields:
  "ignores g q \<Longrightarrow> preserves g (add_fields sv q campo pr sc fs)"
  by (induction fs) (auto intro!: preserves_intros preserves_AddField)

lemma preserves_insert_rows:
  "ignores g q \<Longrightarrow> preserves g (insert_rows sv q names rs)"
  by (induction rs) (auto intro!: preserves_intros preserves_insertRow)

lemma preserves_copy_attributes:
  "ignores g q \<Longrightarrow> preserves g (copy_attributes sv p q campo ofs)"
  unfolding copy_attributes_def
  by (intro preserves_intros preserves_ListFields preserves_SearchCursor preserves_InsertCursor
        preserves_insert_rows)

lemma preserves_calculate_geometry:
  "ignores g q \<Longrightarrow> preserves g (calculate_geometry sv q campo)"
  unfolding calculate_geometry_def
  by (intro preserves_intros preserves_CalculateGeometryAttributes)

lemma add_fields_Inr:
  "add_fields sv t campo pr sc fs w = (Inr u, w') \<Longrightarrow> store w t = Some fc \<Longrightarrow>
     w' = w\<lparr>store := (store w)(t := Some (fc_add_fields campo pr sc fs fc))\<rparr>"
proof (induction fs arbitrary: w fc)
  case Nil
  then show ?case by (simp add: return_eq fun_upd_idem)
next
  case (Cons f fs)
  from Cons.prems(1) obtain w1 where
    s1: "(if f_type f \<notin> set [''OID'', ''Geometry''] \<and> lower (f_name f) \<noteq> lower campo
          then AddField sv t f
          else if lower (f_name f) = lower campo
          then AddField sv t (target_field campo pr sc)
          else return ()) w = (Inr (), w1)"
    and s2: "add_fields sv t campo pr sc fs w1 = (Inr u, w')"
    by (auto simp: and_then_Inr)
  let ?fc1 = "(if f_type f \<notin> set [''OID'', ''Geometry''] \<and> lower (f_name f) \<noteq> lower campo
        then fc_add_field (requested f) fc
        else if lower (f_name f) = lower campo
        then fc_add_field (requested (target_field campo pr sc)) fc
        else fc)"
  have w1: "w1 = w\<lparr>store := (store w)(t := Some ?fc1)\<rparr>"
    using s1 Cons.prems(2) by (auto simp: AddField_Inr return_eq fun_upd_idem split: if_splits)
  then have "store w1 t = Some ?fc1" by simp
  from Cons.IH[OF s2 this]
  have "w' = w1\<lparr>store := (store w1)(t := Some (fc_add_fields campo pr sc fs ?fc1))\<rparr>" .
  also have "\<dots> = w\<lparr>store := (store w)(t := Some (fc_add_fields campo pr sc fs ?fc1))\<rparr>"
    unfolding w1 by simp
  finally show ?case by (simp only: fc_add_fields.simps)
qed

lemma insert_rows_Inr:
  "insert_rows sv t names rs w = (Inr u, w') \<Longrightarrow> store w t = Some fc \<Longrightarrow>
     w' = w\<lparr>store := (store w)(t := Some (fc_insert_rows names rs fc))\<rparr>"
proof (induction rs arbitrary: w fc)
  case Nil
  then show ?case by (simp add: return_eq fun_upd_idem)
next
  case (Cons row rs)
  from Cons.prems(1) obtain w1 where
    s1: "insertRow sv t names row w = (Inr (), w1)"
    and s2: "insert_rows sv t names rs w1 = (Inr u, w')"
    by (auto simp: and_then_Inr)
  have w1: "w1 = w\<lparr>store := (store w)(t := Some (fc_insert_row names row fc))\<rparr>"
    using s1 Cons.prems(2) by (auto simp: insertRow_Inr)
  then have "store w1 t = Some (fc_insert_row names row fc)" by simp
  from Cons.IH[OF s2 this]
  have "w' = w1\<lparr>store := (store w1)(t := Some (fc_insert_rows names rs (fc_insert_row names row fc)))\<rparr>" .
  also have "\<dots> = w\<lparr>store := (store w)(t := Some (fc_insert_rows names rs (fc_insert_row names row fc)))\<rparr>"
    unfolding w1 by simp
  finally show ?case by (simp only: fc_insert_rows.simps)
qed

lemma create_temp_Inr:
  assumes "create_temp sv campo pr sc sr ofs w = (Inr t, w')"
  shows "t = temp_location sv w"
    and "w' = w\<lparr>stdout := stdout w @ [MsgCreandoTemporal t],
               store := (store w)(t := Some (fc_add_fields campo pr sc ofs
                 \<lparr>fc_fields = implicit_fields, fc_rows = [], spatialReference = sr\<rparr>))\<rparr>"
proof -
  from assms obtain w1 w2 w3 where
    a: "CreateUniqueName sv ''temp_output.shp'' (scratchFolder w) w = (Inr t, w1)"
    and b: "print_out (MsgCreandoTemporal t) w1 = (Inr (), w2)"
    and c: "CreateFeatureclass sv t sr w2 = (Inr (), w3)"
    and d: "add_fields sv t campo pr sc ofs w3 = (Inr (), w')"
    by (auto simp: create_temp_def and_then_Inr return_eq)
  from a show "t = temp_location sv w" by (simp add: CreateUniqueName_Inr temp_location_def)
  from a have w1: "w1 = w" by (simp add: CreateUniqueName_Inr)
  from b have w2: "w2 = w1\<lparr>stdout := stdout w1 @ [MsgCreandoTemporal t]\<rparr>"
    by (simp add: print_out_Inr)
  from c have w3: "w3 = w2\<lparr>store := (store w2)(t := Some
       \<lparr>fc_fields = implicit_fields, fc_rows = [], spatialReference = sr\<rparr>)\<rparr>"
    by (simp add: CreateFeatureclass_Inr)
  then have "store w3 t = Some \<lparr>fc_fields = implicit_fields, fc_rows = [], spatialReference = sr\<rparr>"
    by simp
  from add_fields_Inr[OF d this] show "w' = w\<lparr>stdout := stdout w @ [MsgCreandoTemporal t],
               store := (store w)(t := Some (fc_add_fields campo pr sc ofs
                 \<lparr>fc_fields = implicit_fields, fc_rows = [], spatialReference = sr\<rparr>))\<rparr>"
    using w1 w2 w3 by simp
qed

lemma copy_attributes_Inr:
  assumes "copy_attributes sv p t campo ofs w = (Inr u, w')"
    and "store w p = Some fc" and "store w t = Some tfc"
  shows "w' = w\<lparr>stdout := stdout w @ [MsgCopiandoDatos],
               store := (store w)(t := Some
                 (fc_insert_rows (original_fields_to_copy_of ofs (temp_fields_of (fc_fields tfc)) campo)
                    (map (read_row (original_fields_to_copy_of ofs (temp_fields_of (fc_fields tfc)) campo))
                       (fc_rows fc)) tfc))\<rparr>"
proof -
  let ?names = "original_fields_to_copy_of ofs (temp_fields_of (fc_fields tfc)) campo"
  from assms(1) obtain w1 tfs w2 rs w3 w4 where
    a: "print_out MsgCopiandoDatos w = (Inr (), w1)"
    and b: "ListFields sv t w1 = (Inr tfs, w2)"
    and c: "SearchCursor sv p (original_fields_to_copy_of ofs (temp_fields_of tfs) campo) w2 = (Inr rs, w3)"
    and d: "InsertCursor sv t (original_fields_to_copy_of ofs (temp_fields_of tfs) campo) w3 = (Inr (), w4)"
    and e: "insert_rows sv t (original_fields_to_copy_of ofs (temp_fields_of tfs) campo) rs w4 = (Inr (), w')"
    by (auto simp: copy_attributes_def and_then_Inr)
  from a have w1: "w1 = w\<lparr>stdout := stdout w @ [MsgCopiandoDatos]\<rparr>" by (simp add: print_out_Inr)
  from b w1 assms(3) have tfs: "tfs = fc_fields tfc" and w2: "w2 = w1"
    by (auto simp: ListFields_Inr)
  from c w1 w2 assms(2) have rs: "rs = map (read_row ?names) (fc_rows fc)" and w3: "w3 = w2"
    by (auto simp: SearchCursor_Inr tfs)
  from d have w4: "w4 = w3" by (simp add: InsertCursor_Inr)
  have "store w4 t = Some tfc" using w1 w2 w3 w4 assms(3) by simp
  from insert_rows_Inr[OF e this] show ?thesis using w1 w2 w3 w4 tfs rs by simp
qed

lemma calculate_geometry_Inr:
  assumes "calculate_geometry sv t campo w = (Inr u, w')" and "store w t = Some tfc"
  shows "w' = w\<lparr>stdout := stdout w @ [MsgCalculando campo],
               store := (store w)(t := Some (fc_calculate_area sv
                  (case outputCoordinateSystem w of Some cs \<Rightarrow> cs | None \<Rightarrow> spatialReference tfc)
                  campo tfc))\<rparr>"
  using assms by (auto simp: calculate_geometry_def and_then_Inr print_out_Inr
      CalculateGeometryAttributes_Inr)


lemma create_temp_frame:
  assumes "ignores g (temp_location sv w)"
  shows "g (snd (create_temp sv campo pr sc sr ofs w)) = g w"
proof -
  let ?t = "temp_location sv w"
  let ?rest = "\<lambda>t. and_then (print_out (MsgCreandoTemporal t)) (\<lambda>_.
     and_then (CreateFeatureclass sv t sr) (\<lambda>_.
     and_then (add_fields sv t campo pr sc ofs) (\<lambda>_. return t)))"
  have rest: "preserves g (?rest ?t)"
    by (intro preserves_intros preserves_CreateFeatureclass preserves_add_fields) (rule assms)+
  show ?thesis
  proof (cases "fault sv (CallCreateUniqueName ''temp_output.shp'' (scratchFolder w))")
    case None
    then have "create_temp sv campo pr sc sr ofs w = ?rest ?t w"
      by (simp add: create_temp_def and_then_def CreateUniqueName_def tool_def return_def
          temp_location_def)
    then show ?thesis using rest by (simp add: preserves_def)
  next
    case (Some e)
    then have "create_temp sv campo pr sc sr ofs w = (Inl e, w)"
      by (simp add: create_temp_def and_then_def CreateUniqueName_def tool_def)
    then show ?thesis by simp
  qed
qed



lemma ignores_store_other: "q \<noteq> p \<Longrightarrow> ignores (\<lambda>w. store w p) q"
  by (simp add: ignores_def)


lemma ignores_env:
  "ignores (\<lambda>w. (overwriteOutput w, outputCoordinateSystem w, scratchFolder w)) q"
  by (simp add: ignores_def)

lemma preservesD: "preserves g m \<Longrightarrow> m w = (r, w') \<Longrightarrow> g w' = g w"
  by (auto simp: preserves_def dest: spec[where x=w])

lemma replace_original_outcomes:
  assumes run: "replace_original sv p t w = (r, w')"
    and p: "store w p = Some fc" and t: "store w t = Some X" and neq: "t \<noteq> p"
  shows "(\<exists>e. r = Inl e \<and> store w' p = Some fc)
       \<or> (\<exists>e. r = Inl e \<and> store w' p = None \<and> store w' t = Some (fc_delete_field ''Id'' X)
              \<and> fault sv (CallCopyFeatures t p) = Some e)
       \<or> (\<exists>e. r = Inl e \<and> store w' p = Some (fc_delete_field ''Id'' X)
              \<and> store w' t = Some (fc_delete_field ''Id'' X)
              \<and> fault sv (CallCopyFeatures t p) = None)
       \<or> (r = Inr True \<and> store w' p = Some (fc_delete_field ''Id'' X) \<and> store w' t = None
              \<and> fault sv (CallCopyFeatures t p) = None)"
  using run p t neq
  unfolding replace_original_def DeleteField_def Delete_def CopyFeatures_def
  by (auto simp: and_then_def tool_def dataset_def put_store_def print_out_def return_def
        raise_def Exists_def split: option.splits if_splits)









section \<open>Outcomes of the recreation\<close>

lemma temp_with_rows_unfold:
  "temp_with_rows campo pr sc fc =
     fc_insert_rows
       (original_fields_to_copy_of (fc_fields fc)
          (temp_fields_of (fc_fields (temp_with_fields campo pr sc fc))) campo)
       (map (read_row (original_fields_to_copy_of (fc_fields fc)
          (temp_fields_of (fc_fields (temp_with_fields campo pr sc fc))) campo)) (fc_rows fc))
       (temp_with_fields campo pr sc fc)"
  by (simp add: temp_with_rows_def Let_def)

lemma recreate_layer_outcomes:
  assumes run: "recreate_layer sv p campo pr sc (spatialReference fc) (fc_fields fc) w = (r, w')"
    and p: "store w p = Some fc"
    and neq: "temp_location sv w \<noteq> p"
    and cs: "outputCoordinateSystem w = Some (spatialReference fc)"
  shows "(isl r \<and> store w' p = Some fc)
       \<or> (isl r \<and> store w' p = None
            \<and> store w' (temp_location sv w) = Some (rebuilt sv campo pr sc fc)
            \<and> fault sv (CallCopyFeatures (temp_location sv w) p) \<noteq> None)
       \<or> (isl r \<and> store w' p = Some (rebuilt sv campo pr sc fc)
            \<and> store w' (temp_location sv w) = Some (rebuilt sv campo pr sc fc)
            \<and> fault sv (CallCopyFeatures (temp_location sv w) p) = None)
       \<or> (r = Inr True \<and> store w' p = Some (rebuilt sv campo pr sc fc)
            \<and> store w' (temp_location sv w) = None
            \<and> fault sv (CallCopyFeatures (temp_location sv w) p) = None)"
proof -
  let ?t = "temp_location sv w"
  let ?g = "\<lambda>w. store w p"
  have ig: "ignores ?g ?t" using neq by (simp add: ignores_def)
  show ?thesis
  proof (rule and_then_cases[OF run[unfolded recreate_layer_def]])
    fix e assume a: "create_temp sv campo pr sc (spatialReference fc) (fc_fields fc) w = (Inl e, w')"
      and r: "r = Inl e"
    have "?g (snd (create_temp sv campo pr sc (spatialReference fc) (fc_fields fc) w)) = ?g w"
      by (rule create_temp_frame[OF ig])
    then show ?thesis using a r p by simp
  next
    fix t w1
    assume a: "create_temp sv campo pr sc (spatialReference fc) (fc_fields fc) w = (Inr t, w1)"
      and rest1: "and_then (copy_attributes sv p t campo (fc_fields fc)) (\<lambda>_.
           and_then (calculate_geometry sv t campo) (\<lambda>_. replace_original sv p t)) w1 = (r, w')"
    have t: "t = ?t" by (rule create_temp_Inr(1)[OF a])
    have w1: "w1 = w\<lparr>stdout := stdout w @ [MsgCreandoTemporal t],
               store := (store w)(t := Some (temp_with_fields campo pr sc fc))\<rparr>"
      using create_temp_Inr(2)[OF a] by (simp add: temp_with_fields_def)
    have p1: "store w1 p = Some fc" using w1 p neq t by simp
    have t1: "store w1 t = Some (temp_with_fields campo pr sc fc)" using w1 by simp
    have cs1: "outputCoordinateSystem w1 = Some (spatialReference fc)" using w1 cs by simp
    have igt: "ignores ?g t" using ig t by simp
    show ?thesis
    proof (rule and_then_cases[OF rest1])
      fix e assume b: "copy_attributes sv p t campo (fc_fields fc) w1 = (Inl e, w')" and r: "r = Inl e"
      from preservesD[OF preserves_copy_attributes[OF igt] b] show ?thesis using r p1 by simp
    next
      fix u w2
      assume b: "copy_attributes sv p t campo (fc_fields fc) w1 = (Inr u, w2)"
        and rest2: "and_then (calculate_geometry sv t campo) (\<lambda>_. replace_original sv p t) w2 = (r, w')"
      have w2: "w2 = w1\<lparr>stdout := stdout w1 @ [MsgCopiandoDatos],
                  store := (store w1)(t := Some (temp_with_rows campo pr sc fc))\<rparr>"
        using copy_attributes_Inr[OF b p1 t1] by (simp add: temp_with_rows_unfold)
      have p2: "store w2 p = Some fc" using w2 p1 neq t by simp
      have t2: "store w2 t = Some (temp_with_rows campo pr sc fc)" using w2 by simp
      have cs2: "outputCoordinateSystem w2 = Some (spatialReference fc)" using w2 cs1 by simp
      show ?thesis
      proof (rule and_then_cases[OF rest2])
        fix e assume c: "calculate_geometry sv t campo w2 = (Inl e, w')" and r: "r = Inl e"
        from preservesD[OF preserves_calculate_geometry[OF igt] c] show ?thesis using r p2 by simp
      next
        fix u' w3
        assume c: "calculate_geometry sv t campo w2 = (Inr u', w3)"
          and rest3: "replace_original sv p t w3 = (r, w')"
        have w3: "w3 = w2\<lparr>stdout := stdout w2 @ [MsgCalculando campo],
                  store := (store w2)(t := Some (temp_with_area sv campo pr sc fc))\<rparr>"
          using calculate_geometry_Inr[OF c t2] cs2 by (simp add: temp_with_area_def)
        have p3: "store w3 p = Some fc" using w3 p2 neq t by simp
        have t3: "store w3 t = Some (temp_with_area sv campo pr sc fc)" using w3 by simp
        have tp: "t \<noteq> p" using neq t by simp
        from replace_original_outcomes[OF rest3 p3 t3 tp]
        show ?thesis unfolding rebuilt_def t by auto
      qed
    qed
  qed
qed

lemma replace_original_Inr_neq:
  "replace_original sv p t w = (Inr b, w') \<Longrightarrow> t \<noteq> p"
  by (auto simp: replace_original_def and_then_Inr print_out_Inr DeleteField_Inr Delete_Inr
        CopyFeatures_Inr)

lemma recreate_layer_Inr_neq:
  assumes "recreate_layer sv p campo pr sc sr ofs w = (Inr b, w')"
  shows "temp_location sv w \<noteq> p"
proof -
  from assms obtain t w1 w2 w3 where
    a: "create_temp sv campo pr sc sr ofs w = (Inr t, w1)"
    and d: "replace_original sv p t w3 = (Inr b, w')"
    by (auto simp: recreate_layer_def and_then_Inr)
  from create_temp_Inr(1)[OF a] replace_original_Inr_neq[OF d] show ?thesis by simp
qed

lemma temp_location_cong:
  "store w1 = store w \<Longrightarrow> scratchFolder w1 = scratchFolder w \<Longrightarrow>
     temp_location sv w1 = temp_location sv w"
proof -
  assume a: "store w1 = store w" and b: "scratchFolder w1 = scratchFolder w"
  have "Exists w1 = Exists w" by (rule ext) (simp add: Exists_def a)
  then show ?thesis by (simp add: temp_location_def b)
qed

lemma try_body_slow:
  assumes run: "try_body sv p campo pr sc w = (r, w')"
    and p: "store w p = Some fc"
    and nwf: "\<not> well_formed campo pr sc (fc_fields fc)"
    and neq: "isl r \<Longrightarrow> temp_location sv w \<noteq> p"
  shows "(isl r \<and> store w' p = Some fc)
       \<or> (isl r \<and> store w' p = None
            \<and> store w' (temp_location sv w) = Some (rebuilt sv campo pr sc fc)
            \<and> fault sv (CallCopyFeatures (temp_location sv w) p) \<noteq> None)
       \<or> (isl r \<and> store w' p = Some (rebuilt sv campo pr sc fc)
            \<and> store w' (temp_location sv w) = Some (rebuilt sv campo pr sc fc)
            \<and> fault sv (CallCopyFeatures (temp_location sv w) p) = None)
       \<or> (r = Inr True \<and> store w' p = Some (rebuilt sv campo pr sc fc)
            \<and> store w' (temp_location sv w) = None
            \<and> fault sv (CallCopyFeatures (temp_location sv w) p) = None)"
proof -
  let ?g = "\<lambda>w. store w p"
  let ?w1 = "w\<lparr>overwriteOutput := True\<rparr>"
  let ?w3 = "?w1\<lparr>outputCoordinateSystem := Some (spatialReference fc)\<rparr>"
  let ?slow = "recreate_layer sv p campo pr sc (spatialReference fc) (fc_fields fc)"
  have main: ?thesis if rl: "?slow w5 = (r, w')" and st: "store w5 = store w"
    and sf: "scratchFolder w5 = scratchFolder w"
    and cs: "outputCoordinateSystem w5 = Some (spatialReference fc)" for w5
  proof -
    have tl: "temp_location sv w5 = temp_location sv w" by (rule temp_location_cong[OF st sf])
    have "temp_location sv w5 \<noteq> p"
    proof (cases r)
      case (Inl e)
      then show ?thesis using neq tl by simp
    next
      case (Inr b)
      then show ?thesis using recreate_layer_Inr_neq rl by blast
    qed
    moreover have "store w5 p = Some fc" using st p by simp
    ultimately show ?thesis using recreate_layer_outcomes[OF rl _ _ cs] tl by simp
  qed
  have run1: "and_then (Describe sv p) (\<lambda>d.
     and_then (set_outputCoordinateSystem (spatialReference d)) (\<lambda>_.
     and_then (ListFields sv p) (\<lambda>original_fields.
       case find (\<lambda>f. lower (f_name f) = lower campo) original_fields of
         Some field_obj \<Rightarrow>
           and_then (print_out (MsgCampoDetectado campo)) (\<lambda>_.
             if f_type field_obj = ''Double'' \<and> f_precision field_obj = pr
                \<and> f_scale field_obj = sc
             then
               and_then (print_out MsgFormatoCorrecto) (\<lambda>_.
               and_then (CalculateGeometryAttributes sv p campo) (\<lambda>_.
               and_then (print_out MsgSuperficieCalculada) (\<lambda>_.
               return True)))
             else
               and_then (print_out (MsgFormatoIncorrecto (f_type field_obj) (f_precision field_obj)))
                 (\<lambda>_.
               and_then (print_out MsgSeRecreara) (\<lambda>_.
               recreate_layer sv p campo pr sc (spatialReference d) original_fields)))
       | None \<Rightarrow>
           recreate_layer sv p campo pr sc (spatialReference d) original_fields))) ?w1 = (r, w')"
    using run by (simp add: try_body_def and_then_def set_overwriteOutput_def)
  show ?thesis
  proof (rule and_then_cases[OF run1])
    fix e assume a: "Describe sv p ?w1 = (Inl e, w')" and r: "r = Inl e"
    from preservesD[OF preserves_Describe a, of ?g] show ?thesis using r p by simp
  next
    fix d w2
    assume a: "Describe sv p ?w1 = (Inr d, w2)"
      and rest: "and_then (set_outputCoordinateSystem (spatialReference d)) (\<lambda>_.
        and_then (ListFields sv p) (\<lambda>original_fields.
       case find (\<lambda>f. lower (f_name f) = lower campo) original_fields of
         Some field_obj \<Rightarrow>
           and_then (print_out (MsgCampoDetectado campo)) (\<lambda>_.
             if f_type field_obj = ''Double'' \<and> f_precision field_obj = pr
                \<and> f_scale field_obj = sc
             then
               and_then (print_out MsgFormatoCorrecto) (\<lambda>_.
               and_then (CalculateGeometryAttributes sv p campo) (\<lambda>_.
               and_then (print_out MsgSuperficieCalculada) (\<lambda>_.
               return True)))
             else
               and_then (print_out (MsgFormatoIncorrecto (f_type field_obj) (f_precision field_obj)))
                 (\<lambda>_.
               and_then (print_out MsgSeRecreara) (\<lambda>_.
               recreate_layer sv p campo pr sc (spatialReference d) original_fields)))
       | None \<Rightarrow>
           recreate_layer sv p campo pr sc (spatialReference d) original_fields)) w2 = (r, w')"
    from a p have d: "d = fc" and w2: "w2 = ?w1" by (auto simp: Describe_Inr)
    have run2: "and_then (ListFields sv p) (\<lambda>original_fields.
       case find (\<lambda>f. lower (f_name f) = lower campo) original_fields of
         Some field_obj \<Rightarrow>
           and_then (print_out (MsgCampoDetectado campo)) (\<lambda>_.
             if f_type field_obj = ''Double'' \<and> f_precision field_obj = pr
                \<and> f_scale field_obj = sc
             then
               and_then (print_out MsgFormatoCorrecto) (\<lambda>_.
               and_then (CalculateGeometryAttributes sv p campo) (\<lambda>_.
               and_then (print_out MsgSuperficieCalculada) (\<lambda>_.
               return True)))
             else
               and_then (print_out (MsgFormatoIncorrecto (f_type field_obj) (f_precision field_obj)))
                 (\<lambda>_.
               and_then (print_out MsgSeRecreara) (\<lambda>_.
               recreate_layer sv p campo pr sc (spatialReference fc) original_fields)))
       | None \<Rightarrow>
           recreate_layer sv p campo pr sc (spatialReference fc) original_fields) ?w3 = (r, w')"
      using rest unfolding d w2 by (simp add: and_then_def set_outputCoordinateSystem_def)
    show ?thesis
    proof (rule and_then_cases[OF run2])
      fix e assume b: "ListFields sv p ?w3 = (Inl e, w')" and r: "r = Inl e"
      from preservesD[OF preserves_ListFields b, of ?g] show ?thesis using r p by simp
    next
      fix ofs w4
      assume b: "ListFields sv p ?w3 = (Inr ofs, w4)"
        and rest2: "(case find (\<lambda>f. lower (f_name f) = lower campo) ofs of
         Some field_obj \<Rightarrow>
           and_then (print_out (MsgCampoDetectado campo)) (\<lambda>_.
             if f_type field_obj = ''Double'' \<and> f_precision field_obj = pr
                \<and> f_scale field_obj = sc
             then
               and_then (print_out MsgFormatoCorrecto) (\<lambda>_.
               and_then (CalculateGeometryAttributes sv p campo) (\<lambda>_.
               and_then (print_out MsgSuperficieCalculada) (\<lambda>_.
               return True)))
             else
               and_then (print_out (MsgFormatoIncorrecto (f_type field_obj) (f_precision field_obj)))
                 (\<lambda>_.
               and_then (print_out MsgSeRecreara) (\<lambda>_.
               recreate_layer sv p campo pr sc (spatialReference fc) ofs)))
       | None \<Rightarrow>
           recreate_layer sv p campo pr sc (spatialReference fc) ofs) w4 = (r, w')"
      from b p have ofs: "ofs = fc_fields fc" and w4: "w4 = ?w3" by (auto simp: ListFields_Inr)
      show ?thesis
      proof (cases "find_field campo (fc_fields fc)")
        case None
        then have "?slow ?w3 = (r, w')" using rest2 unfolding ofs w4 by (simp add: find_field_def)
        then show ?thesis by (rule main) simp_all
      next
        case (Some f)
        then have "\<not> (f_type f = ''Double'' \<and> f_precision f = pr \<and> f_scale f = sc)"
          using nwf by (simp add: well_formed_def)
        then have "?slow (?w3\<lparr>stdout := stdout w @ [MsgCampoDetectado campo,
            MsgFormatoIncorrecto (f_type f) (f_precision f), MsgSeRecreara]\<rparr>) = (r, w')"
          using rest2 Some unfolding ofs w4
          by (auto simp add: find_field_def and_then_def print_out_def split: if_splits)
        then show ?thesis by (rule main) simp_all
      qed
    qed
  qed
qed

lemma st_trans_sup_ha_body:
  assumes run: "st_trans_sup_ha sv p campo pr sc w = (r, w')" and p: "store w p = Some fc"
    and body: "try_body sv p campo pr sc (w\<lparr>stdout := stdout w @ [MsgIniciando (basename p)]\<rparr>)
                 = (r0, w0)"
  shows "r = (case r0 of Inl e \<Rightarrow> Inr False | Inr b \<Rightarrow> Inr b)"
    and "store w' = store w0"
proof -
  have ex: "Exists w p" using p by (simp add: Exists_def)
  show "r = (case r0 of Inl e \<Rightarrow> Inr False | Inr b \<Rightarrow> Inr b)" and "store w' = store w0"
    using run ex body
    by (auto simp: st_trans_sup_ha_def and_then_def print_out_def print_err_def
          split: sum.splits error.splits)
qed

lemma st_trans_sup_ha_slow_success:
  assumes run: "st_trans_sup_ha sv p campo pr sc w = (Inr True, w')"
    and p: "store w p = Some fc"
    and nwf: "\<not> well_formed campo pr sc (fc_fields fc)"
  shows "store w' p = Some (rebuilt sv campo pr sc fc)"
    and "store w' (temp_location sv w) = None"
proof -
  let ?w0 = "w\<lparr>stdout := stdout w @ [MsgIniciando (basename p)]\<rparr>"
  obtain r0 w0 where body: "try_body sv p campo pr sc ?w0 = (r0, w0)"
    by (cases "try_body sv p campo pr sc ?w0") auto
  have res: "(Inr True :: error + bool) = (case r0 of Inl e \<Rightarrow> Inr False | Inr b \<Rightarrow> Inr b)"
    by (rule st_trans_sup_ha_body(1)[OF run p body])
  have st: "store w' = store w0"
    by (rule st_trans_sup_ha_body(2)[OF run p body])
  have r0: "r0 = Inr True" using res by (cases r0) simp_all
  have tl: "temp_location sv ?w0 = temp_location sv w" by (rule temp_location_cong) simp_all
  have p0: "store ?w0 p = Some fc" using p by simp
  have "isl r0 \<Longrightarrow> temp_location sv ?w0 \<noteq> p" using r0 by simp
  from try_body_slow[OF body p0 nwf this]
  have "store w0 p = Some (rebuilt sv campo pr sc fc) \<and> store w0 (temp_location sv w) = None"
    unfolding tl r0 by simp
  then show "store w' p = Some (rebuilt sv campo pr sc fc)"
    and "store w' (temp_location sv w) = None"
    unfolding st by simp_all
qed

section \<open>The rebuilt collection\<close>

lemma find_field_None: "find_field n fs = None \<longleftrightarrow> lower n \<notin> (\<lambda>f. lower (f_name f)) ` set fs"
  unfolding find_field_def find_None_iff by force



lemma fc_add_field_fields:
  "fc_fields (fc_add_field f fc) =
     (if find_field (f_name f) (fc_fields fc) = None then fc_fields fc @ [f] else fc_fields fc)"
  by (auto simp: fc_add_field_def split: option.splits)

lemma fc_add_field_rows_Nil: "fc_rows fc = [] \<Longrightarrow> fc_rows (fc_add_field f fc) = []"
  by (auto simp: fc_add_field_def split: option.splits)

lemma fc_add_field_sr: "spatialReference (fc_add_field f fc) = spatialReference fc"
  by (auto simp: fc_add_field_def split: option.splits)

lemma fc_add_fields_rows_Nil:
  "fc_rows fc = [] \<Longrightarrow> fc_rows (fc_add_fields campo pr sc fs fc) = []"
  by (induction fs arbitrary: fc) (simp_all add: fc_add_field_rows_Nil)

lemma fc_add_fields_sr:
  "spatialReference (fc_add_fields campo pr sc fs fc) = spatialReference fc"
  by (induction fs arbitrary: fc) (simp_all add: fc_add_field_sr)

lemma requested_name: "f_name (requested f) = f_name f"
  by (simp add: requested_def)

lemma fc_insert_rows_fields: "fc_fields (fc_insert_rows names rs fc) = fc_fields fc"
  by (induction rs arbitrary: fc) (simp_all add: fc_insert_row_def)

lemma fc_insert_rows_sr: "spatialReference (fc_insert_rows names rs fc) = spatialReference fc"
  by (induction rs arbitrary: fc) (simp_all add: fc_insert_row_def)

lemma fc_insert_rows_shapes:
  "map shape (fc_rows (fc_insert_rows names rs fc)) = map shape (fc_rows fc) @ map fst rs"
  by (induction rs arbitrary: fc) (simp_all add: fc_insert_row_def)

lemma fc_write_area_simps:
  "fc_fields (fc_write_area sv cs n fc) = fc_fields fc"
  "spatialReference (fc_write_area sv cs n fc) = spatialReference fc"
  "map shape (fc_rows (fc_write_area sv cs n fc)) = map shape (fc_rows fc)"
  by (simp_all add: fc_write_area_def comp_def)




lemma temp_with_fields_simps:
  "fc_rows (temp_with_fields campo pr sc fc) = []"
  "spatialReference (temp_with_fields campo pr sc fc) = spatialReference fc"
  by (simp_all add: temp_with_fields_def fc_add_fields_rows_Nil fc_add_fields_sr)

lemma temp_with_rows_simps:
  "fc_fields (temp_with_rows campo pr sc fc) = fc_fields (temp_with_fields campo pr sc fc)"
  "spatialReference (temp_with_rows campo pr sc fc) = spatialReference fc"
  "map shape (fc_rows (temp_with_rows campo pr sc fc)) = map shape (fc_rows fc)"
  by (simp_all add: temp_with_rows_def Let_def fc_insert_rows_fields fc_insert_rows_sr
        fc_insert_rows_shapes temp_with_fields_simps read_row_def comp_def)
















lemma rebuilt_no_Id:
  "f \<in> set (fc_fields (rebuilt sv campo pr sc fc)) \<Longrightarrow> lower (f_name f) \<noteq> lower ''Id''"
  "r \<in> set (fc_rows (rebuilt sv campo pr sc fc)) \<Longrightarrow> kv \<in> set (attrs r) \<Longrightarrow>
     lower (fst kv) \<noteq> lower ''Id''"
  by (auto simp: rebuilt_def fc_delete_field_def)


lemma reserved_names_eval: "reserved_names = [''fid'', ''shape'', ''id'']"
  by code_simp

lemma lower_Id: "lower ''Id'' = ''id''"
  by code_simp

lemma find_field_iff: "find_field n fs \<noteq> None \<longleftrightarrow> lower n \<in> (\<lambda>f. lower (f_name f)) ` set fs"
  using find_field_None[of n fs] by simp











section \<open>The fast path\<close>





lemma add_fields_absent:
  "find_field campo fs = None \<Longrightarrow>
     add_fields sv t campo pr sc fs = add_fields sv t campo pr' sc' fs"
proof (induction fs)
  case Nil
  then show ?case by simp
next
  case (Cons f fs)
  from Cons.prems have "lower (f_name f) \<noteq> lower campo" and "find_field campo fs = None"
    by (auto simp: find_field_def split: if_splits)
  with Cons.IH show ?case by simp
qed

lemma absent_target_ignores_precision:
  assumes p: "store w p = Some fc" and absent: "find_field campo (fc_fields fc) = None"
  shows "st_trans_sup_ha sv p campo pr sc w = st_trans_sup_ha sv p campo pr' sc' w"
proof -
  have rl: "recreate_layer sv p campo pr sc sr (fc_fields fc)
          = recreate_layer sv p campo pr' sc' sr (fc_fields fc)" for sr
    by (simp add: recreate_layer_def create_temp_def add_fields_absent[OF absent, of sv _ pr sc pr' sc'])
  have ff: "find (\<lambda>f. lower (f_name f) = lower campo) (fc_fields fc) = None"
    using absent by (simp add: find_field_def)
  have "try_body sv p campo pr sc w0 = try_body sv p campo pr' sc' w0" if "store w0 p = Some fc" for w0
    using that ff rl
    by (simp add: try_body_def and_then_def set_overwriteOutput_def set_outputCoordinateSystem_def
        Describe_def ListFields_def tool_def dataset_def return_def split: option.splits)
  then show ?thesis using p
    by (simp add: st_trans_sup_ha_def and_then_def print_out_def)
qed

section \<open>Runs without a failing service\<close>

lemma add_fields_run:
  assumes nf: "\<forall>c. fault sv c = None"
  shows "store w t = Some fc \<Longrightarrow>
     add_fields sv t campo pr sc fs w =
       (Inr (), w\<lparr>store := (store w)(t := Some (fc_add_fields campo pr sc fs fc))\<rparr>)"
proof (induction fs arbitrary: w fc)
  case Nil
  then show ?case by (simp add: return_def fun_upd_idem)
next
  case (Cons f fs)
  let ?fc1 = "(if f_type f \<notin> set [''OID'', ''Geometry''] \<and> lower (f_name f) \<noteq> lower campo
        then fc_add_field (requested f) fc
        else if lower (f_name f) = lower campo
        then fc_add_field (requested (target_field campo pr sc)) fc
        else fc)"
  let ?w1 = "w\<lparr>store := (store w)(t := Some ?fc1)\<rparr>"
  have s1: "(if f_type f \<notin> set [''OID'', ''Geometry''] \<and> lower (f_name f) \<noteq> lower campo
          then AddField sv t f
          else if lower (f_name f) = lower campo
          then AddField sv t (target_field campo pr sc)
          else return ()) w = (Inr (), ?w1)"
    using nf Cons.prems
    by (simp add: AddField_def tool_def and_then_def dataset_def put_store_def return_def
        requested_def fun_upd_idem)
  have "store ?w1 t = Some ?fc1" by simp
  from Cons.IH[OF this]
  have "add_fields sv t campo pr sc fs ?w1 =
      (Inr (), ?w1\<lparr>store := (store ?w1)(t := Some (fc_add_fields campo pr sc fs ?fc1))\<rparr>)" .
  also have "?w1\<lparr>store := (store ?w1)(t := Some (fc_add_fields campo pr sc fs ?fc1))\<rparr>
      = w\<lparr>store := (store w)(t := Some (fc_add_fields campo pr sc fs ?fc1))\<rparr>" by simp
  finally have s2: "add_fields sv t campo pr sc fs ?w1 =
      (Inr (), w\<lparr>store := (store w)(t := Some (fc_add_fields campo pr sc fs ?fc1))\<rparr>)" .
  have "add_fields sv t campo pr sc (f # fs) w = add_fields sv t campo pr sc fs ?w1"
    using s1 by (simp add: and_then_def)
  with s2 show ?case by (simp only: fc_add_fields.simps)
qed

lemma insert_rows_run:
  assumes nf: "\<forall>c. fault sv c = None"
  shows "store w t = Some fc \<Longrightarrow>
     insert_rows sv t names rs w =
       (Inr (), w\<lparr>store := (store w)(t := Some (fc_insert_rows names rs fc))\<rparr>)"
proof (induction rs arbitrary: w fc)
  case Nil
  then show ?case by (simp add: return_def fun_upd_idem)
next
  case (Cons row rs)
  let ?w1 = "w\<lparr>store := (store w)(t := Some (fc_insert_row names row fc))\<rparr>"
  have s1: "insertRow sv t names row w = (Inr (), ?w1)"
    using nf Cons.prems
    by (simp add: insertRow_def tool_def and_then_def dataset_def put_store_def)
  have "store ?w1 t = Some (fc_insert_row names row fc)" by simp
  from Cons.IH[OF this]
  have "insert_rows sv t names rs ?w1 =
      (Inr (), ?w1\<lparr>store := (store ?w1)(t := Some (fc_insert_rows names rs (fc_insert_row names row fc)))\<rparr>)" .
  also have "?w1\<lparr>store := (store ?w1)(t := Some (fc_insert_rows names rs (fc_insert_row names row fc)))\<rparr>
      = w\<lparr>store := (store w)(t := Some (fc_insert_rows names rs (fc_insert_row names row fc)))\<rparr>"
    by simp
  finally have s2: "insert_rows sv t names rs ?w1 =
      (Inr (), w\<lparr>store := (store w)(t := Some (fc_insert_rows names rs (fc_insert_row names row fc)))\<rparr>)" .
  have "insert_rows sv t names (row # rs) w = insert_rows sv t names rs ?w1"
    using s1 by (simp add: and_then_def)
  with s2 show ?case by (simp only: fc_insert_rows.simps)
qed

lemma create_temp_run:
  assumes nf: "\<forall>c. fault sv c = None" and ow: "overwriteOutput w"
  shows "create_temp sv campo pr sc sr ofs w =
           (Inr (temp_location sv w),
            w\<lparr>stdout := stdout w @ [MsgCreandoTemporal (temp_location sv w)],
              store := (store w)(temp_location sv w := Some (fc_add_fields campo pr sc ofs
                 \<lparr>fc_fields = implicit_fields, fc_rows = [], spatialReference = sr\<rparr>))\<rparr>)"
proof -
  let ?t = "temp_location sv w"
  let ?new = "\<lparr>fc_fields = implicit_fields, fc_rows = [], spatialReference = sr\<rparr>"
  let ?w3 = "w\<lparr>stdout := stdout w @ [MsgCreandoTemporal ?t], store := (store w)(?t := Some ?new)\<rparr>"
  have "store ?w3 ?t = Some ?new" by simp
  from add_fields_run[OF nf this]
  have "add_fields sv ?t campo pr sc ofs ?w3 =
      (Inr (), ?w3\<lparr>store := (store ?w3)(?t := Some (fc_add_fields campo pr sc ofs ?new))\<rparr>)" .
  then show ?thesis
    using nf ow
    by (simp add: create_temp_def and_then_def CreateUniqueName_def CreateFeatureclass_def tool_def
        return_def print_out_def put_store_def temp_location_def)
qed

lemma copy_names_found:
  assumes "n \<in> set (original_fields_to_copy_of ofs (temp_fields_of tfs) campo)"
  shows "find_field n ofs \<noteq> None" and "find_field n tfs \<noteq> None"
proof -
  from assms obtain f where "f \<in> set ofs" "n = f_name f" "n \<in> set (temp_fields_of tfs)"
    by (auto simp: original_fields_to_copy_of_def)
  then show "find_field n ofs \<noteq> None" "find_field n tfs \<noteq> None"
    unfolding find_field_iff temp_fields_of_def by force+
qed

lemma copy_attributes_run:
  assumes nf: "\<forall>c. fault sv c = None"
    and p: "store w p = Some fc" and t: "store w t = Some tfc"
  shows "\<exists>w'. copy_attributes sv p t campo (fc_fields fc) w = (Inr (), w')
           \<and> store w' = (store w)(t := Some
                 (fc_insert_rows (original_fields_to_copy_of (fc_fields fc) (temp_fields_of (fc_fields tfc)) campo)
                    (map (read_row (original_fields_to_copy_of (fc_fields fc) (temp_fields_of (fc_fields tfc)) campo))
                       (fc_rows fc)) tfc))
           \<and> overwriteOutput w' = overwriteOutput w
           \<and> outputCoordinateSystem w' = outputCoordinateSystem w"
proof -
  let ?names = "original_fields_to_copy_of (fc_fields fc) (temp_fields_of (fc_fields tfc)) campo"
  let ?w1 = "w\<lparr>stdout := stdout w @ [MsgCopiandoDatos]\<rparr>"
  have a: "\<forall>n \<in> set ?names. find_field n (fc_fields fc) \<noteq> None"
    and b: "\<forall>n \<in> set ?names. find_field n (fc_fields tfc) \<noteq> None"
    using copy_names_found by blast+
  have "store ?w1 t = Some tfc" using t by simp
  from insert_rows_run[OF nf this]
  have ins: "insert_rows sv t ?names (map (read_row ?names) (fc_rows fc)) ?w1 =
      (Inr (), ?w1\<lparr>store := (store ?w1)(t := Some
          (fc_insert_rows ?names (map (read_row ?names) (fc_rows fc)) tfc))\<rparr>)" .
  have "copy_attributes sv p t campo (fc_fields fc) w =
      (Inr (), ?w1\<lparr>store := (store ?w1)(t := Some
          (fc_insert_rows ?names (map (read_row ?names) (fc_rows fc)) tfc))\<rparr>)"
    using nf p t a b ins
    by (simp add: copy_attributes_def and_then_def print_out_def ListFields_def SearchCursor_def
        InsertCursor_def tool_def dataset_def return_def)
  then show ?thesis by simp
qed

lemma fc_add_fields_mono:
  "set (fc_fields fc) \<subseteq> set (fc_fields (fc_add_fields campo pr sc fs fc))"
proof (induction fs arbitrary: fc)
  case Nil
  then show ?case by simp
next
  case (Cons f fs)
  have "set (fc_fields fc) \<subseteq> set (fc_fields (fc_add_field g fc))" for g
    by (auto simp: fc_add_field_fields)
  then show ?case using Cons.IH by (simp; blast)
qed

lemma temp_with_area_has_Id:
  "find_field ''Id'' (fc_fields (temp_with_area sv campo pr sc fc)) \<noteq> None"
proof -
  let ?id = "implicit_fields ! 2"
  have "?id \<in> set implicit_fields" by (simp add: implicit_fields_def)
  then have "?id \<in> set (fc_fields (temp_with_rows campo pr sc fc))"
    using fc_add_fields_mono[of "\<lparr>fc_fields = implicit_fields, fc_rows = [],
        spatialReference = spatialReference fc\<rparr>" campo pr sc "fc_fields fc"]
    by (auto simp: temp_with_rows_simps temp_with_fields_def)
  then have "?id \<in> set (fc_fields (temp_with_area sv campo pr sc fc))"
    by (auto simp: temp_with_area_def fc_calculate_area_def fc_write_area_simps fc_add_field_fields
        split: option.splits)
  moreover have "lower (f_name ?id) = lower ''Id''" by (simp add: implicit_fields_def)
  ultimately show ?thesis unfolding find_field_iff by force
qed

lemma replace_original_run:
  assumes nf: "\<forall>c. fault sv c = None"
    and p: "store w p = Some fc" and t: "store w t = Some X"
    and id: "find_field ''Id'' (fc_fields X) \<noteq> None" and neq: "t \<noteq> p"
  shows "fst (replace_original sv p t w) = Inr True"
proof -
  from id obtain y where y: "find_field ''Id'' (fc_fields X) = Some y" by auto
  show ?thesis
    using nf p t y neq
    by (simp add: replace_original_def and_then_def print_out_def DeleteField_def Delete_def
        CopyFeatures_def tool_def dataset_def put_store_def return_def Exists_def)
qed

lemma recreate_layer_run:
  assumes nf: "\<forall>c. fault sv c = None"
    and p: "store w p = Some fc" and neq: "temp_location sv w \<noteq> p"
    and ow: "overwriteOutput w"
    and cs: "outputCoordinateSystem w = Some (spatialReference fc)"
  shows "fst (recreate_layer sv p campo pr sc (spatialReference fc) (fc_fields fc) w) = Inr True"
proof -
  let ?t = "temp_location sv w"
  let ?w1 = "w\<lparr>stdout := stdout w @ [MsgCreandoTemporal ?t],
               store := (store w)(?t := Some (temp_with_fields campo pr sc fc))\<rparr>"
  have a: "create_temp sv campo pr sc (spatialReference fc) (fc_fields fc) w = (Inr ?t, ?w1)"
    using create_temp_run[OF nf ow] by (simp add: temp_with_fields_def)
  have p1: "store ?w1 p = Some fc" using p neq by simp
  have t1: "store ?w1 ?t = Some (temp_with_fields campo pr sc fc)" by simp
  from copy_attributes_run[OF nf p1 t1] obtain w2 where
    b: "copy_attributes sv p ?t campo (fc_fields fc) ?w1 = (Inr (), w2)"
    and s2: "store w2 = (store ?w1)(?t := Some (temp_with_rows campo pr sc fc))"
    and cs2: "outputCoordinateSystem w2 = outputCoordinateSystem ?w1"
    unfolding temp_with_rows_unfold by blast
  let ?w3 = "w2\<lparr>stdout := stdout w2 @ [MsgCalculando campo],
               store := (store w2)(?t := Some (temp_with_area sv campo pr sc fc))\<rparr>"
  have c: "calculate_geometry sv ?t campo w2 = (Inr (), ?w3)"
    using nf s2 cs2 cs
    by (simp add: calculate_geometry_def and_then_def print_out_def CalculateGeometryAttributes_def
        tool_def dataset_def put_store_def temp_with_area_def)
  have p3: "store ?w3 p = Some fc" using s2 p neq by simp
  have t3: "store ?w3 ?t = Some (temp_with_area sv campo pr sc fc)" by simp
  have d: "fst (replace_original sv p ?t ?w3) = Inr True"
    by (rule replace_original_run[OF nf p3 t3 temp_with_area_has_Id neq])
  show ?thesis using a b c d by (simp add: recreate_layer_def and_then_def)
qed

lemma slow_path_returns_True:
  assumes nf: "\<forall>c. fault sv c = None"
    and p: "store w p = Some fc"
    and slow: "\<not> well_formed campo pr sc (fc_fields fc)"
    and neq: "temp_location sv w \<noteq> p"
  shows "fst (st_trans_sup_ha sv p campo pr sc w) = Inr True"
proof -
  let ?w0 = "w\<lparr>stdout := stdout w @ [MsgIniciando (basename p)]\<rparr>"
  have run: "fst (recreate_layer sv p campo pr sc (spatialReference fc) (fc_fields fc) w5) = Inr True"
    if "store w5 = store w" "scratchFolder w5 = scratchFolder w" "overwriteOutput w5"
      "outputCoordinateSystem w5 = Some (spatialReference fc)" for w5
  proof -
    have "temp_location sv w5 = temp_location sv w" by (rule temp_location_cong[OF that(1,2)])
    then show ?thesis using recreate_layer_run[OF nf _ _ that(3,4), of p campo pr sc] p neq that(1)
      by simp
  qed
  have body: "fst (try_body sv p campo pr sc ?w0) = Inr True"
  proof (cases "find_field campo (fc_fields fc)")
    case None
    then show ?thesis using nf p run
      by (simp add: try_body_def and_then_def set_overwriteOutput_def set_outputCoordinateSystem_def
          Describe_def ListFields_def tool_def dataset_def return_def find_field_def)
  next
    case (Some f)
    then have "\<not> (f_type f = ''Double'' \<and> f_precision f = pr \<and> f_scale f = sc)"
      using slow by (simp add: well_formed_def)
    then show ?thesis using nf p run Some
      by (auto simp: try_body_def and_then_def set_overwriteOutput_def set_outputCoordinateSystem_def
          Describe_def ListFields_def tool_def dataset_def return_def find_field_def print_out_def)
  qed
  obtain r0 w0 where rw: "try_body sv p campo pr sc ?w0 = (r0, w0)"
    by (cases "try_body sv p campo pr sc ?w0") auto
  with body have "r0 = Inr True" by simp
  then show ?thesis using rw p
    by (simp add: st_trans_sup_ha_def Exists_def print_out_def)
qed


text \<open>
  C3: when no collection exists at the location, the function returns \<open>False\<close> at once;
  the only change of the state is the not-found message on the error stream, so the
  storage and the environment settings are as before.
\<close>

theorem st_trans_sup_ha_not_found:
  assumes "store w shapefile_path = None"
  shows "st_trans_sup_ha sv shapefile_path campo_superficie precision escala w =
           (Inr False, w\<lparr>stderr := stderr w @ [MsgNoExiste shapefile_path]\<rparr>)"
  using assms by (simp add: st_trans_sup_ha_def Exists_def print_err_def)

theorem st_trans_sup_ha_not_found_witness:
  "store (example_world predio_ok) ''C:/datos/otro.shp'' = None
   \<and> st_trans_sup_ha example_services ''C:/datos/otro.shp'' ''Sup_ha'' 8 2 (example_world predio_ok) =
       (Inr False, (example_world predio_ok)
          \<lparr>stderr := stderr (example_world predio_ok) @ [MsgNoExiste ''C:/datos/otro.shp'']\<rparr>)"
proof -
  have h: "store (example_world predio_ok) ''C:/datos/otro.shp'' = None"
    by (simp add: example_world_def)
  from h st_trans_sup_ha_not_found[OF h] show ?thesis by simp
qed





text \<open>
  C9: on the slow path, that is when the target field is absent or malformed, a call that
  returns \<open>True\<close> leaves a collection with no field named \<open>Id\<close> and no row with a
  value under \<open>Id\<close>: the field is deleted from the replacement before the swap, whether
  it came from the creation of the replacement or from the original.
\<close>

theorem st_trans_sup_ha_drops_Id:
  assumes run: "st_trans_sup_ha sv shapefile_path campo_superficie precision escala w = (Inr True, w')"
    and p: "store w shapefile_path = Some fc"
    and slow: "\<not> well_formed campo_superficie precision escala (fc_fields fc)"
  shows "\<exists>fc'. store w' shapefile_path = Some fc'
         \<and> (\<forall>f \<in> set (fc_fields fc'). f_name f \<noteq> ''Id'')
         \<and> (\<forall>r \<in> set (fc_rows fc'). ''Id'' \<notin> fst ` set (attrs r))"
proof -
  let ?fc' = "rebuilt sv campo_superficie precision escala fc"
  have "store w' shapefile_path = Some ?fc'"
    by (rule st_trans_sup_ha_slow_success(1)[OF run p slow])
  moreover have "\<forall>f \<in> set (fc_fields ?fc'). f_name f \<noteq> ''Id''"
    by (auto dest: rebuilt_no_Id(1))
  moreover have "\<forall>r \<in> set (fc_rows ?fc'). ''Id'' \<notin> fst ` set (attrs r)"
    by (auto dest: rebuilt_no_Id(2))
  ultimately show ?thesis by blast
qed

theorem st_trans_sup_ha_drops_Id_witness:
  "rows_of (example_world predio_text) ''C:/datos/predio.shp''
       = Some [[(''Id'', IntV 7), (''SUP_HA'', Text ''uno''), (''Nombre'', Text ''Lote A'')]]
   \<and> fst (st_trans_sup_ha example_services ''C:/datos/predio.shp'' ''Sup_ha'' 8 2
          (example_world predio_text)) = Inr True
   \<and> (\<exists>fc'. store (snd (st_trans_sup_ha example_services ''C:/datos/predio.shp'' ''Sup_ha'' 8 2
                     (example_world predio_text))) ''C:/datos/predio.shp'' = Some fc'
         \<and> (\<forall>f \<in> set (fc_fields fc'). f_name f \<noteq> ''Id'')
         \<and> (\<forall>r \<in> set (fc_rows fc'). ''Id'' \<notin> fst ` set (attrs r)))"
proof -
  let ?run = "st_trans_sup_ha example_services ''C:/datos/predio.shp'' ''Sup_ha'' 8 2
                (example_world predio_text)"
  have before: "rows_of (example_world predio_text) ''C:/datos/predio.shp''
       = Some [[(''Id'', IntV 7), (''SUP_HA'', Text ''uno''), (''Nombre'', Text ''Lote A'')]]"
    by code_simp
  have ok: "fst ?run = Inr True" by code_simp
  then have run: "?run = (Inr True, snd ?run)" by (simp add: prod_eq_iff)
  have p: "store (example_world predio_text) ''C:/datos/predio.shp'' = Some predio_text"
    by (simp add: example_world_def)
  have slow: "\<not> well_formed ''Sup_ha'' 8 2 (fc_fields predio_text)" by code_simp
  from before ok st_trans_sup_ha_drops_Id[OF run p slow] show ?thesis by blast
qed






text \<open>
  C2: the original has no field matching \<open>Sup_ha\<close> and the call asks for precision 8
  and scale 2. The walk over the fields adds nothing for the target (the append after the
  loop is commented out in the source), so the field is created by the area computation
  with the format of the storage, here 18 and 11, and not with the format asked for.
\<close>

theorem st_trans_sup_ha_absent_target_example:
  "schema_of (example_world predio_sin_campo) ''C:/datos/predio.shp''
       = Some [(''FID'', ''OID'', 0, 0), (''Shape'', ''Geometry'', 0, 0),
               (''Nombre'', ''String'', 0, 0)]
   \<and> fst (st_trans_sup_ha example_services ''C:/datos/predio.shp'' ''Sup_ha'' 8 2
            (example_world predio_sin_campo)) = Inr True
   \<and> schema_of (snd (st_trans_sup_ha example_services ''C:/datos/predio.shp'' ''Sup_ha'' 8 2
                     (example_world predio_sin_campo))) ''C:/datos/predio.shp''
       = Some [(''FID'', ''OID'', 0, 0), (''Shape'', ''Geometry'', 0, 0),
               (''Nombre'', ''String'', 0, 0), (''Sup_ha'', ''Double'', 18, 11)]"
  by code_simp

text \<open>
  C7: on the same original, one call leaves the target field with the format of the
  storage, and a second call with the same parameters finds it malformed and rebuilds the
  collection, so the schema after two calls is not the schema after one.
\<close>

theorem st_trans_sup_ha_twice_example:
  "schema_of (snd (st_trans_sup_ha example_services ''C:/datos/predio.shp'' ''Sup_ha'' 8 2
                     (example_world predio_sin_campo))) ''C:/datos/predio.shp''
       = Some [(''FID'', ''OID'', 0, 0), (''Shape'', ''Geometry'', 0, 0),
               (''Nombre'', ''String'', 0, 0), (''Sup_ha'', ''Double'', 18, 11)]
   \<and> fst (st_trans_sup_ha example_services ''C:/datos/predio.shp'' ''Sup_ha'' 8 2
            (snd (st_trans_sup_ha example_services ''C:/datos/predio.shp'' ''Sup_ha'' 8 2
                    (example_world predio_sin_campo)))) = Inr True
   \<and> schema_of (snd (st_trans_sup_ha example_services ''C:/datos/predio.shp'' ''Sup_ha'' 8 2
                     (snd (st_trans_sup_ha example_services ''C:/datos/predio.shp'' ''Sup_ha'' 8 2
                             (example_world predio_sin_campo))))) ''C:/datos/predio.shp''
       = Some [(''FID'', ''OID'', 0, 0), (''Shape'', ''Geometry'', 0, 0),
               (''Nombre'', ''String'', 0, 0), (''Sup_ha'', ''Double'', 8, 2)]"
  by code_simp

text \<open>
  C8: on the slow path, with the temporary location different from the input location,
  every run ends in one of four states, whatever service fails and wherever: the original
  is still at the location and the call returned \<open>False\<close>; or nothing is at the
  location, the complete replacement (rows copied, areas computed, \<open>Id\<close> deleted) is at
  the temporary location, the copy back failed and the call returned \<open>False\<close>; or the
  replacement is at both locations and the call returned \<open>False\<close>; or the replacement
  is at the location, the temporary one is gone and the call returned \<open>True\<close>. Since a
  failing service stops the run where it is, the states between the service calls are
  among these: the original is gone only once the replacement is complete, a failed copy
  back leaves the location empty with no attempt to restore it, and then the result is
  \<open>False\<close>.
\<close>

theorem st_trans_sup_ha_swap_order:
  assumes run: "st_trans_sup_ha sv shapefile_path campo_superficie precision escala w = (r, w')"
    and p: "store w shapefile_path = Some fc"
    and slow: "\<not> well_formed campo_superficie precision escala (fc_fields fc)"
    and neq: "temp_location sv w \<noteq> shapefile_path"
  shows "(r = Inr False \<and> store w' shapefile_path = Some fc)
       \<or> (r = Inr False \<and> store w' shapefile_path = None
            \<and> store w' (temp_location sv w) = Some (rebuilt sv campo_superficie precision escala fc)
            \<and> fault sv (CallCopyFeatures (temp_location sv w) shapefile_path) \<noteq> None)
       \<or> (r = Inr False
            \<and> store w' shapefile_path = Some (rebuilt sv campo_superficie precision escala fc)
            \<and> store w' (temp_location sv w) = Some (rebuilt sv campo_superficie precision escala fc)
            \<and> fault sv (CallCopyFeatures (temp_location sv w) shapefile_path) = None)
       \<or> (r = Inr True
            \<and> store w' shapefile_path = Some (rebuilt sv campo_superficie precision escala fc)
            \<and> store w' (temp_location sv w) = None
            \<and> fault sv (CallCopyFeatures (temp_location sv w) shapefile_path) = None)"
proof -
  let ?w0 = "w\<lparr>stdout := stdout w @ [MsgIniciando (basename shapefile_path)]\<rparr>"
  obtain r0 w0 where
    body: "try_body sv shapefile_path campo_superficie precision escala ?w0 = (r0, w0)"
    by (cases "try_body sv shapefile_path campo_superficie precision escala ?w0") auto
  have res: "r = (case r0 of Inl e \<Rightarrow> Inr False | Inr b \<Rightarrow> Inr b)"
    by (rule st_trans_sup_ha_body(1)[OF run p body])
  have st: "store w' = store w0"
    by (rule st_trans_sup_ha_body(2)[OF run p body])
  have tl: "temp_location sv ?w0 = temp_location sv w" by (rule temp_location_cong) simp_all
  have p0: "store ?w0 shapefile_path = Some fc" using p by simp
  have neq0: "temp_location sv ?w0 \<noteq> shapefile_path" using neq tl by simp
  from try_body_slow[OF body p0 slow neq0]
  show ?thesis unfolding st tl res by (cases r0) auto
qed

theorem st_trans_sup_ha_swap_order_witness:
  "fst (st_trans_sup_ha copy_back_fails ''C:/datos/predio.shp'' ''Sup_ha'' 8 2
          (example_world predio_text)) = Inr False
   \<and> schema_of (snd (st_trans_sup_ha copy_back_fails ''C:/datos/predio.shp'' ''Sup_ha'' 8 2
                     (example_world predio_text))) ''C:/datos/predio.shp'' = None
   \<and> schema_of (snd (st_trans_sup_ha copy_back_fails ''C:/datos/predio.shp'' ''Sup_ha'' 8 2
                     (example_world predio_text))) ''C:/scratch/temp_output.shp''
       = Some [(''FID'', ''OID'', 0, 0), (''Shape'', ''Geometry'', 0, 0),
               (''Sup_ha'', ''Double'', 8, 2), (''Nombre'', ''String'', 0, 0)]
   \<and> store (snd (st_trans_sup_ha copy_back_fails ''C:/datos/predio.shp'' ''Sup_ha'' 8 2
                     (example_world predio_text)))
         (temp_location copy_back_fails (example_world predio_text))
       = Some (rebuilt copy_back_fails ''Sup_ha'' 8 2 predio_text)"
proof -
  let ?run = "st_trans_sup_ha copy_back_fails ''C:/datos/predio.shp'' ''Sup_ha'' 8 2
                (example_world predio_text)"
  have r: "fst ?run = Inr False" by code_simp
  have gone: "schema_of (snd ?run) ''C:/datos/predio.shp'' = None" by code_simp
  have left: "schema_of (snd ?run) ''C:/scratch/temp_output.shp''
       = Some [(''FID'', ''OID'', 0, 0), (''Shape'', ''Geometry'', 0, 0),
               (''Sup_ha'', ''Double'', 8, 2), (''Nombre'', ''String'', 0, 0)]" by code_simp
  have run: "?run = (fst ?run, snd ?run)" by simp
  have p: "store (example_world predio_text) ''C:/datos/predio.shp'' = Some predio_text"
    by (simp add: example_world_def)
  have slow: "\<not> well_formed ''Sup_ha'' 8 2 (fc_fields predio_text)" by code_simp
  have neq: "temp_location copy_back_fails (example_world predio_text) \<noteq> ''C:/datos/predio.shp''"
    by code_simp
  have "store (snd ?run) ''C:/datos/predio.shp'' = None"
    using gone by (simp add: schema_of_def)
  with st_trans_sup_ha_swap_order[OF run p slow neq] r gone left show ?thesis by auto
qed

end
